theory Spec2Isabelle
  imports
    Complex_Main
    "HOL-Library.AList"
    "HOL-Library.Sublist"
    "HOL-Library.Multiset"
    "HOL-Library.Char_ord"
    "HOL-Library.List_Lexorder"
begin

section \<open>Eagle Access: a shallow embedding of the face-recognition backend\<close>

text \<open>
  The development follows the Python modules \<^verbatim>\<open>backend/config.py\<close>,
  \<^verbatim>\<open>backend/user_manager.py\<close>, \<^verbatim>\<open>backend/photo_capture.py\<close>,
  \<^verbatim>\<open>backend/embedding_manager.py\<close>, \<^verbatim>\<open>backend/face_recognition.py\<close> and
  \<^verbatim>\<open>api.py\<close>.

  Conventions of the embedding:
  \<^item> a number is the real value of a Python or numpy float. The arithmetic of numpy,
    sklearn and scipy (in \<^verbatim>\<open>float32\<close>) and of Python floats is not part of the
    repository: the functions that compute with floats are the fields of a record
    \<open>numerics\<close>, an argument of every function that calls them, and nothing is
    assumed about the values they return. Comparisons of floats are comparisons of
    their values;
  \<^item> \<^verbatim>\<open>str.lower\<close> is an argument \<open>lower\<close> in the same way;
  \<^item> a JSON file on disk is a value of \<open>json_file\<close>: absent, unreadable, or holding a
    value; a JSON object is an association list in insertion order, as Python's
    \<^verbatim>\<open>dict\<close> is;
  \<^item> an exception is the left summand \<open>Inl e\<close> of a result, returned together with
    the state reached when it was raised;
  \<^item> a camera frame, and an image file written from it, is identified with what
    \<^verbatim>\<open>DeepFace.represent\<close> answers on its crop (the face detector and the
    embedding network are opaque collaborators);
  \<^item> the webcam is a feed of frames indexed by read position; a read that fails
    (\<^verbatim>\<open>ok\<close> false) is \<open>None\<close> and does not advance the position.
\<close>

subsection \<open>Values shared by the modules\<close>

type_synonym vec = "real list"

text \<open>A vector as \<^verbatim>\<open>embeddings.json\<close> holds it: its numbers, or \<open>None\<close> when one
  of them is \<^verbatim>\<open>Infinity\<close> or \<^verbatim>\<open>NaN\<close>.\<close>

type_synonym stored_vec = "vec option"

text \<open>The exceptions. \<open>NumpyError\<close> is a \<^verbatim>\<open>ValueError\<close> raised inside numpy or
  sklearn (ragged rows, an array that is not two-dimensional, no feature, a value that
  is not finite); \<open>JSONDecodeError\<close>, a subclass of \<^verbatim>\<open>ValueError\<close>, carries the
  message of the decoder.\<close>

datatype error =
    FileNotFoundError string
  | RuntimeError string
  | ValueError string
  | JSONDecodeError string
  | NumpyError

text \<open>A file that cannot be decoded is kept with the message \<^verbatim>\<open>json.load\<close> raises
  on it.\<close>

datatype 'a json_file = NoFile | BadJson string | Json 'a

text \<open>What \<^verbatim>\<open>DeepFace.represent\<close> does on an image: a list whose first item has an
  \<^verbatim>\<open>"embedding"\<close>, a result without one, or an exception.\<close>

datatype represent = Embedding vec | NoEmbedding | Raises

record frame =
  rep :: represent
  key_q :: bool

record camera =
  is_opened :: bool
  feed :: "nat \<Rightarrow> frame option"
  pos :: nat

text \<open>The decision dictionary of \<^verbatim>\<open>verify_face_live\<close>, with its five keys.\<close>

record decision =
  status :: string
  name :: "string option"
  confidence :: string
  scores :: "(string \<times> real) list"
  time :: string

type_synonym embeddings_db = "(string \<times> stored_vec list) list"

type_synonym folder = "(string \<times> represent) list"

text \<open>
  The persistent and process-wide state: \<^verbatim>\<open>users.json\<close> (user id to name),
  \<^verbatim>\<open>embeddings.json\<close> (name to vectors), \<^verbatim>\<open>access_log.json\<close>, the folders
  \<^verbatim>\<open>DATASET_DIR/<name>/cropped\<close> (file name to image; the \<^verbatim>\<open>raw\<close> folders are
  written and never read, and are left out), and the dictionary
  \<^verbatim>\<open>registration_status\<close> of \<^verbatim>\<open>api.py\<close>.
\<close>

record state =
  users_file :: "(string \<times> string) list json_file"
  embed_file :: "embeddings_db json_file"
  log_file :: "decision list json_file"
  cropped_dirs :: "string \<rightharpoonup> folder"
  registration_status :: "string \<rightharpoonup> string"

subsection \<open>config.py\<close>

text \<open>The two settings the modelled functions read. Each is taken from an environment
  variable when it is set; \<open>default_config\<close> holds the values used otherwise.\<close>

record config =
  NUM_IMAGES :: nat
  SIMILARITY_THRESHOLD :: real

definition default_config :: config where
  "default_config = \<lparr>NUM_IMAGES = 30, SIMILARITY_THRESHOLD = 0.50\<rparr>"

subsection \<open>The float arithmetic of the libraries\<close>

text \<open>
  The functions of numpy, sklearn, scipy and Python that compute with floats:
  \<^item> \<open>mean_f32 vs\<close>: \<^verbatim>\<open>np.asarray(vs, dtype="float32").mean(axis=0)\<close> of a non-empty
    list of rows of one length, \<open>None\<close> when a component of the result is not finite;
  \<^item> \<open>normalize_f32 v\<close>: the row \<^verbatim>\<open>Normalizer(norm="l2").transform\<close> returns for the
    \<^verbatim>\<open>float32\<close> row \<open>v\<close>, \<open>None\<close> when it raises (a value that is not finite in
    \<^verbatim>\<open>float32\<close>);
  \<^item> \<open>cosine_similarity u v\<close>: the entry of sklearn's \<^verbatim>\<open>cosine_similarity\<close> for the
    rows \<open>u\<close> and \<open>v\<close>;
  \<^item> \<open>euclidean\<close> and \<open>cityblock\<close>: the distances of \<^verbatim>\<open>scipy.spatial.distance\<close>;
  \<^item> \<open>fadd\<close>, \<open>fdiv\<close>, \<open>fmul\<close>: \<^verbatim>\<open>+\<close>, \<^verbatim>\<open>/\<close> and \<^verbatim>\<open>*\<close> of Python floats;
  \<^item> \<open>py_round x n\<close>: \<^verbatim>\<open>round(x, n)\<close>.

  They are arguments of the model: nothing is assumed about the values they return. A
  finite float is represented by the real number it denotes, so the comparisons and
  the decimal formatting of floats are exact; the two zeros of the float formats are
  one value here.
\<close>

record numerics =
  mean_f32 :: "vec list \<Rightarrow> vec option"
  normalize_f32 :: "vec \<Rightarrow> vec option"
  cosine_similarity :: "vec \<Rightarrow> vec \<Rightarrow> real"
  euclidean :: "vec \<Rightarrow> vec \<Rightarrow> real"
  cityblock :: "vec \<Rightarrow> vec \<Rightarrow> real"
  fadd :: "real \<Rightarrow> real \<Rightarrow> real"
  fdiv :: "real \<Rightarrow> real \<Rightarrow> real"
  fmul :: "real \<Rightarrow> real \<Rightarrow> real"
  py_round :: "real \<Rightarrow> nat \<Rightarrow> real"

subsection \<open>Python and numpy primitives that are exact\<close>

text \<open>Rounding to the nearest integer, ties to even, as the format \<^verbatim>\<open>.nf\<close> rounds
  the value of a float.\<close>

definition round_half_even :: "real \<Rightarrow> int" where
  "round_half_even x =
     (let f = \<lfloor>x\<rfloor>; r = x - of_int f in
      if r < 1 / 2 then f
      else if 1 / 2 < r then f + 1
      else if even f then f else f + 1)"

fun digits :: "nat \<Rightarrow> string" where
  "digits n =
     (if n < 10 then [''0123456789'' ! n]
      else digits (n div 10) @ [''0123456789'' ! (n mod 10)])"

declare digits.simps [simp del]

text \<open>\<^verbatim>\<open>f"{x:.pf}"\<close> for \<open>p > 0\<close>: sign, integer part, point, \<open>p\<close> digits.\<close>

definition format_f :: "nat \<Rightarrow> real \<Rightarrow> string" where
  "format_f p x =
     (let n = nat \<bar>round_half_even (x * 10 ^ p)\<bar>;
          frac = digits (n mod 10 ^ p)
      in (if x < 0 then ''-'' else '''') @ digits (n div 10 ^ p) @ ''.''
           @ replicate (p - length frac) CHR ''0'' @ frac)"

text \<open>The rows of a list have one length: \<^verbatim>\<open>np.asarray\<close> accepts them.\<close>

definition rectangular :: "vec list \<Rightarrow> bool" where
  "rectangular vs = list_all (\<lambda>v. length v = length (hd vs)) vs"

text \<open>\<^verbatim>\<open>np.argmax\<close>: the first index of a greatest entry (of a non-empty array).\<close>

fun argmax :: "real list \<Rightarrow> nat" where
  "argmax [] = 0"
| "argmax [x] = 0"
| "argmax (x # y # ys) = (let i = argmax (y # ys) in if x < (y # ys) ! i then Suc i else 0)"

subsection \<open>embedding_manager.py: storing embeddings\<close>

text \<open>
  \<^verbatim>\<open>save_user_embeddings\<close>: nothing is written for an empty list; otherwise the file
  is read (an absent or unreadable file counts as \<^verbatim>\<open>{}\<close>), the entry of the name
  is replaced, and the file is written back.
\<close>

definition save_user_embeddings :: "string \<Rightarrow> stored_vec list \<Rightarrow> state \<Rightarrow> nat \<times> state" where
  "save_user_embeddings user_name embeddings st =
     (if embeddings = [] then (0, st)
      else
        let db = (case embed_file st of NoFile \<Rightarrow> [] | BadJson m \<Rightarrow> [] | Json d \<Rightarrow> d);
            db' = AList.update user_name embeddings db
        in (length embeddings, st\<lparr>embed_file := Json db'\<rparr>))"

text \<open>The vectors stored under a name: what \<^verbatim>\<open>db[name]\<close> reads from a readable
  \<^verbatim>\<open>embeddings.json\<close>.\<close>

definition stored_vectors :: "state \<Rightarrow> string \<Rightarrow> stored_vec list option" where
  "stored_vectors st user_name =
     (case embed_file st of NoFile \<Rightarrow> None | BadJson m \<Rightarrow> None | Json d \<Rightarrow> map_of d user_name)"

subsection \<open>user_manager.py\<close>

text \<open>\<^verbatim>\<open>_read_json(USERS_FILE, {})\<close> behind \<^verbatim>\<open>list_users\<close>: an absent file is
  first created with \<^verbatim>\<open>{}\<close>; an unreadable one raises.\<close>

definition list_users :: "state \<Rightarrow> (error + (string \<times> string) list) \<times> state" where
  "list_users st =
     (case users_file st of
        NoFile \<Rightarrow> (Inr [], st\<lparr>users_file := Json []\<rparr>)
      | BadJson m \<Rightarrow> (Inl (JSONDecodeError m), st)
      | Json users \<Rightarrow> (Inr users, st))"

text \<open>\<^verbatim>\<open>mkdir(parents=True, exist_ok=True)\<close> of the folder \<^verbatim>\<open>cropped\<close> of a
  user: an existing folder keeps its files.\<close>

definition mkdir_cropped :: "string \<Rightarrow> state \<Rightarrow> state" where
  "mkdir_cropped user_name st =
     (case cropped_dirs st user_name of
        None \<Rightarrow> st\<lparr>cropped_dirs := (cropped_dirs st)(user_name \<mapsto> [])\<rparr>
      | Some files \<Rightarrow> st)"

text \<open>\<^verbatim>\<open>add_user_record\<close>. The identifier \<^verbatim>\<open>str(uuid.uuid4())[:8]\<close> is random:
  it is an argument here.\<close>

definition add_user_record ::
  "(string \<Rightarrow> string) \<Rightarrow> string \<Rightarrow> string \<Rightarrow> state \<Rightarrow> (error + string) \<times> state" where
  "add_user_record lower user_name user_id st =
     (case list_users st of
        (Inl e, st1) \<Rightarrow> (Inl e, st1)
      | (Inr users, st1) \<Rightarrow>
          if list_ex (\<lambda>info. lower (snd info) = lower user_name) users
          then (Inl (ValueError (''User '' @ [CHR 0x27] @ user_name @ [CHR 0x27]
                                 @ '' already exists.'')), st1)
          else
            let st2 = st1\<lparr>users_file := Json (AList.update user_id user_name users)\<rparr>
            in (Inr user_id, mkdir_cropped user_name st2))"

subsection \<open>photo_capture.py\<close>

text \<open>\<^verbatim>\<open>cv2.imwrite\<close> of a cropped image into the folder of a user.\<close>

definition write_cropped :: "string \<Rightarrow> string \<Rightarrow> represent \<Rightarrow> state \<Rightarrow> state" where
  "write_cropped user_name file_name img st =
     (case cropped_dirs st user_name of
        None \<Rightarrow> st
      | Some files \<Rightarrow>
          st\<lparr>cropped_dirs := (cropped_dirs st)(user_name \<mapsto> AList.update file_name img files)\<rparr>)"

text \<open>The file name \<^verbatim>\<open>f"img_{i+1}.jpg"\<close> of the image taken at iteration \<open>i\<close>.\<close>

definition image_name :: "nat \<Rightarrow> string" where
  "image_name i = ''img_'' @ digits (i + 1) @ ''.jpg''"

text \<open>
  The loop \<^verbatim>\<open>for i in range(num_images)\<close> of \<^verbatim>\<open>capture_user_images\<close>. The
  first argument counts the iterations left, the second is \<^verbatim>\<open>i\<close>; the counter
  \<^verbatim>\<open>count\<close> of the source is incremented once per completed iteration and so equals
  \<^verbatim>\<open>i\<close> wherever the loop stops.
\<close>

fun capture_loop :: "string \<Rightarrow> nat \<Rightarrow> nat \<Rightarrow> camera \<Rightarrow> state \<Rightarrow> nat \<times> camera \<times> state" where
  "capture_loop user_name 0 i cam st = (i, cam, st)"
| "capture_loop user_name (Suc n) i cam st =
     (case feed cam (pos cam) of
        None \<Rightarrow> (i, cam, st)
      | Some fr \<Rightarrow>
          capture_loop user_name n (Suc i) (cam\<lparr>pos := Suc (pos cam)\<rparr>)
            (write_cropped user_name (image_name i) (rep fr) st))"

text \<open>\<^verbatim>\<open>capture_user_images\<close>; the folder \<^verbatim>\<open>cropped_dir\<close> it returns is named by
  the user it belongs to.\<close>

definition capture_user_images ::
  "string \<Rightarrow> nat \<Rightarrow> camera \<Rightarrow> state \<Rightarrow> (error + string \<times> nat) \<times> camera \<times> state" where
  "capture_user_images user_name num_images cam st =
     (let st1 = mkdir_cropped user_name st in
      if \<not> is_opened cam
      then (Inl (RuntimeError ''Could not access webcam. Check permissions or device.''), cam, st1)
      else
        (case capture_loop user_name num_images 0 cam st1 of
           (n, cam', st2) \<Rightarrow> (Inr (user_name, n), cam', st2)))"

subsection \<open>embedding_manager.py: computing embeddings\<close>

text \<open>\<^verbatim>\<open>Path.suffix\<close> of a file name: from its last dot on, when that dot is neither
  the first nor the last character.\<close>

definition path_suffix :: "string \<Rightarrow> string" where
  "path_suffix file_name =
     (let r = takeWhile (\<lambda>c. c \<noteq> CHR ''.'') (rev file_name) in
      if r = [] \<or> length file_name \<le> length r + 1 then []
      else CHR ''.'' # rev r)"

text \<open>\<^verbatim>\<open>compute_embeddings_for_folder\<close>: the image files of the folder in sorted
  order; an image whose embedding fails is skipped.\<close>

definition compute_embeddings_for_folder ::
  "(string \<Rightarrow> string) \<Rightarrow> string \<Rightarrow> state \<Rightarrow> vec list" where
  "compute_embeddings_for_folder lower dir st =
     (case cropped_dirs st dir of
        None \<Rightarrow> []
      | Some files \<Rightarrow>
          let images = sort_key fst
                (filter (\<lambda>p. List.member [''.jpg'', ''.jpeg'', ''.png''] (lower (path_suffix (fst p))))
                   files)
          in concat (map (\<lambda>p. case snd p of
                                 Embedding v \<Rightarrow> [v]
                               | NoEmbedding \<Rightarrow> []
                               | Raises \<Rightarrow> []) images))"

text \<open>\<^verbatim>\<open>average_embeddings\<close>: a single-item list holding the mean vector;
  \<^verbatim>\<open>np.array\<close> raises on rows of different lengths.\<close>

definition average_embeddings :: "numerics \<Rightarrow> vec list \<Rightarrow> error + stored_vec list" where
  "average_embeddings np embeddings =
     (if embeddings = [] then Inr []
      else if rectangular embeddings then Inr [mean_f32 np embeddings]
      else Inl NumpyError)"

definition generate_and_save_embeddings_for_user ::
  "numerics \<Rightarrow> (string \<Rightarrow> string) \<Rightarrow> string \<Rightarrow> string \<Rightarrow> state \<Rightarrow> (error + unit) \<times> state" where
  "generate_and_save_embeddings_for_user np lower user_name cropped_folder st =
     (let embs = compute_embeddings_for_folder lower cropped_folder st in
      case average_embeddings np embs of
        Inl e \<Rightarrow> (Inl e, st)
      | Inr embs' \<Rightarrow>
          (case save_user_embeddings user_name embs' st of
             (saved, st') \<Rightarrow> (Inr (), st')))"

subsection \<open>face_recognition.py\<close>

text \<open>Lines 43 and 44 of \<^verbatim>\<open>_load_db\<close> for one name: the mean of its vectors. The
  result is \<open>None\<close> when the name makes numpy or sklearn raise further down: it has no
  vector, a vector that is not finite, vectors of different lengths, or a mean that is
  not finite.\<close>

definition mean_vec :: "numerics \<Rightarrow> stored_vec list \<Rightarrow> vec option" where
  "mean_vec np vecs =
     (case those vecs of
        None \<Rightarrow> None
      | Some vs \<Rightarrow> if vs = [] \<or> \<not> rectangular vs then None else mean_f32 np vs)"

text \<open>
  \<^verbatim>\<open>_load_db\<close>: the names in file order and, row by row, the mean of the vectors of a
  name, the rows then L2-normalised. The rows of means must form a matrix with at least
  one column.
\<close>

definition load_db :: "numerics \<Rightarrow> state \<Rightarrow> error + string list \<times> vec list" where
  "load_db np st =
     (case embed_file st of
        NoFile \<Rightarrow> Inl (FileNotFoundError ''No embeddings.json found. Please register users first.'')
      | BadJson m \<Rightarrow> Inl (JSONDecodeError m)
      | Json db \<Rightarrow>
          if db = [] then Inl (RuntimeError ''embeddings.json is empty. Register users first.'')
          else
            let names = map fst db in
            (case those (map (\<lambda>nm. mean_vec np (snd nm)) db) of
               None \<Rightarrow> Inl NumpyError
             | Some mat \<Rightarrow>
                 if hd mat = [] \<or> \<not> rectangular mat then Inl NumpyError
                 else
                   (case those (map (normalize_f32 np) mat) of
                      None \<Rightarrow> Inl NumpyError
                    | Some rows \<Rightarrow> Inr (names, rows))))"

text \<open>The local variables of \<^verbatim>\<open>verify_face_live\<close> that live across iterations of
  its loop: the decision dictionary and \<^verbatim>\<open>max_idx\<close> (unbound until a frame has
  been scored).\<close>

record locals =
  decision :: decision
  max_idx :: "nat option"

text \<open>The values computed for a probe (lines 128 to 135).\<close>

record metrics =
  sims :: "real list"
  best :: nat
  cos_score :: real
  euclid_score :: real
  manhattan_score :: real

definition compute_metrics :: "numerics \<Rightarrow> vec \<Rightarrow> vec list \<Rightarrow> metrics" where
  "compute_metrics np emb db_embeds =
     (let sims = map (cosine_similarity np emb) db_embeds;
          max_idx = argmax sims;
          target_vec = db_embeds ! max_idx
      in \<lparr>sims = sims, best = max_idx,
          cos_score = sims ! max_idx,
          euclid_score = fdiv np 1 (fadd np 1 (euclidean np emb target_vec)),
          manhattan_score = fdiv np 1 (fadd np 1 (cityblock np emb target_vec))\<rparr>)"

text \<open>
  The threshold test (lines 147 to 162). It yields the updated locals, the value of
  \<^verbatim>\<open>confidence\<close> and the \<^verbatim>\<open>label\<close>. Reading an unbound \<^verbatim>\<open>max_idx\<close> raises
  \<^verbatim>\<open>UnboundLocalError\<close> inside the \<^verbatim>\<open>try\<close>, before the dictionary is updated, and
  the handler of line 164 sets the label and the confidence.
\<close>

definition decide ::
  "numerics \<Rightarrow> real \<Rightarrow> string list \<Rightarrow> real \<Rightarrow> locals \<Rightarrow> locals \<times> real \<times> string" where
  "decide np threshold names conf s =
     (if conf > threshold then
        (case max_idx s of
           None \<Rightarrow> (s, 0, ''No Face / Error'')
         | Some i \<Rightarrow>
             (s\<lparr>decision := (decision s)\<lparr>status := ''granted'', name := Some (names ! i),
                                        confidence := format_f 4 conf\<rparr>\<rparr>,
              conf,
              names ! i @ '' ('' @ format_f 1 (fmul np conf 100) @ ''%)''))
      else
        (s\<lparr>decision := (decision s)\<lparr>status := ''denied'', name := Some ''Unknown'',
                                   confidence := format_f 4 conf\<rparr>\<rparr>,
         conf,
         ''Access Denied''))"

text \<open>
  One iteration of the loop, from the \<^verbatim>\<open>try\<close> to the end of its handler. An
  embedding with no component, or of another length than the rows of the database, or
  with a value that is not finite in \<^verbatim>\<open>float32\<close>, makes \<^verbatim>\<open>Normalizer.transform\<close>
  or \<^verbatim>\<open>cosine_similarity\<close> raise.
\<close>

definition loop_body ::
  "numerics \<Rightarrow> real \<Rightarrow> string list \<Rightarrow> vec list \<Rightarrow> frame \<Rightarrow> locals \<Rightarrow> locals \<times> real \<times> string" where
  "loop_body np threshold names db_embeds fr s =
     (case rep fr of
        Raises \<Rightarrow> (s, 0, ''No Face / Error'')
      | NoEmbedding \<Rightarrow> decide np threshold names 0 s
      | Embedding e \<Rightarrow>
          if e = [] \<or> length e \<noteq> length (hd db_embeds) then (s, 0, ''No Face / Error'')
          else
            (case normalize_f32 np e of
               None \<Rightarrow> (s, 0, ''No Face / Error'')
             | Some emb \<Rightarrow>
                 let m = compute_metrics np emb db_embeds;
                     s1 = s\<lparr>max_idx := Some (best m),
                            decision := (decision s)\<lparr>scores :=
                              [(''cosine'', py_round np (cos_score m) 4),
                               (''euclidean'', py_round np (euclid_score m) 4),
                               (''manhattan'', py_round np (manhattan_score m) 4)]\<rparr>\<rparr>
                 in decide np threshold names (cos_score m) s1))"

text \<open>
  The loop \<^verbatim>\<open>while True\<close>. It ends when a read fails, when the window is shown and
  \<^verbatim>\<open>q\<close> is pressed, or when the confidence is positive or the label contains
  \<^verbatim>\<open>Unknown\<close>; otherwise the next frame is read. A feed that never meets one of
  these conditions keeps the loop running: the result is then \<open>None\<close>.
\<close>

partial_function (option) verify_loop ::
  "numerics \<Rightarrow> real \<Rightarrow> bool \<Rightarrow> string list \<Rightarrow> vec list \<Rightarrow> camera \<Rightarrow> locals
     \<Rightarrow> (camera \<times> locals) option" where
  "verify_loop np threshold show_window names db_embeds cam s =
     (case feed cam (pos cam) of
        None \<Rightarrow> Some (cam, s)
      | Some fr \<Rightarrow>
          (let r = loop_body np threshold names db_embeds fr s;
               cam' = cam\<lparr>pos := Suc (pos cam)\<rparr>
           in if show_window \<and> key_q fr then Some (cam', fst r)
              else if 0 < fst (snd r) \<or> sublist ''Unknown'' (snd (snd r)) then Some (cam', fst r)
              else verify_loop np threshold show_window names db_embeds cam' (fst r)))"

text \<open>\<^verbatim>\<open>_convert_json_safe\<close> turns numpy scalars into Python floats: on the values
  modelled here it changes nothing.\<close>

definition convert_json_safe :: "decision \<Rightarrow> decision" where
  "convert_json_safe d = d"

text \<open>The logging block (lines 192 to 202): an unreadable log raises inside the
  \<^verbatim>\<open>try\<close> and is left as it is.\<close>

definition append_log :: "decision \<Rightarrow> state \<Rightarrow> state" where
  "append_log d st =
     (case log_file st of
        NoFile \<Rightarrow> st\<lparr>log_file := Json [d]\<rparr>
      | BadJson m \<Rightarrow> st
      | Json entries \<Rightarrow> st\<lparr>log_file := Json (entries @ [d])\<rparr>)"

definition initial_decision :: "string \<Rightarrow> decision" where
  "initial_decision now =
     \<lparr>status = ''denied'', name = None, confidence = ''0.00'', scores = [], time = now\<rparr>"

text \<open>\<^verbatim>\<open>verify_face_live\<close>; \<open>now\<close> is \<^verbatim>\<open>datetime.now().isoformat()\<close>.\<close>

definition verify_face_live ::
  "numerics \<Rightarrow> real \<Rightarrow> bool \<Rightarrow> string \<Rightarrow> camera \<Rightarrow> state
     \<Rightarrow> ((error + decision) \<times> camera \<times> state) option" where
  "verify_face_live np threshold show_window now cam st =
     (case load_db np st of
        Inl e \<Rightarrow> Some (Inl e, cam, st)
      | Inr (names, db_embeds) \<Rightarrow>
          if \<not> is_opened cam then Some (Inl (RuntimeError ''Could not access webcam.''), cam, st)
          else
            (case verify_loop np threshold show_window names db_embeds cam
                    \<lparr>decision = initial_decision now, max_idx = None\<rparr> of
               None \<Rightarrow> None
             | Some (cam', s) \<Rightarrow>
                 let d = convert_json_safe (decision s)
                 in Some (Inr d, cam', append_log d st)))"

subsection \<open>api.py\<close>

type_synonym response = "nat \<times> (string \<times> string) list"

text \<open>\<^verbatim>\<open>str(e)\<close> of an exception.\<close>

definition str_error :: "error \<Rightarrow> string" where
  "str_error e =
     (case e of
        FileNotFoundError m \<Rightarrow> m
      | RuntimeError m \<Rightarrow> m
      | ValueError m \<Rightarrow> m
      | JSONDecodeError m \<Rightarrow> m
      | NumpyError \<Rightarrow> [])"

definition set_status :: "string \<Rightarrow> string \<Rightarrow> state \<Rightarrow> state" where
  "set_status user_name v st = st\<lparr>registration_status := (registration_status st)(user_name \<mapsto> v)\<rparr>"

text \<open>
  The route \<^verbatim>\<open>/register\<close>, up to the start of the thread. It answers with the
  response and the state, and with the name the background thread
  \<^verbatim>\<open>process_registration\<close> was started for, if one was started. Both exceptions of
  \<^verbatim>\<open>add_user_record\<close> are \<^verbatim>\<open>ValueError\<close>s (\<^verbatim>\<open>JSONDecodeError\<close> is a subclass)
  and are caught.
\<close>

definition register_user ::
  "(string \<Rightarrow> string) \<Rightarrow> string option \<Rightarrow> string \<Rightarrow> state \<Rightarrow> response \<times> state \<times> string option" where
  "register_user lower form_name user_id st =
     (case form_name of
        None \<Rightarrow>
          ((400, [(''error'', ''Missing '' @ [CHR 0x27] @ ''name'' @ [CHR 0x27] @ '' field'')]),
           st, None)
      | Some user_name \<Rightarrow>
          if user_name = []
          then ((400, [(''error'', ''Missing '' @ [CHR 0x27] @ ''name'' @ [CHR 0x27] @ '' field'')]),
                st, None)
          else
            (case add_user_record lower user_name user_id st of
               (Inl e, st1) \<Rightarrow> ((400, [(''error'', str_error e)]), st1, None)
             | (Inr uid, st1) \<Rightarrow>
                 ((200, [(''message'', ''User '' @ [CHR 0x27] @ user_name @ [CHR 0x27]
                                        @ '' registration started''),
                         (''user_id'', uid)]),
                  set_status user_name ''processing'' st1,
                  Some user_name)))"

text \<open>The thread body \<^verbatim>\<open>process_registration\<close>, run as one step.\<close>

definition process_registration ::
  "numerics \<Rightarrow> (string \<Rightarrow> string) \<Rightarrow> config \<Rightarrow> string \<Rightarrow> camera \<Rightarrow> state \<Rightarrow> camera \<times> state" where
  "process_registration np lower cfg user_name cam st =
     (case capture_user_images user_name (NUM_IMAGES cfg) cam st of
        (Inl e, cam1, st1) \<Rightarrow> (cam1, set_status user_name ''failed'' st1)
      | (Inr (cropped_dir, n), cam1, st1) \<Rightarrow>
          if n = 0 then (cam1, set_status user_name ''failed'' st1)
          else
            (case generate_and_save_embeddings_for_user np lower user_name cropped_dir st1 of
               (Inl e, st2) \<Rightarrow> (cam1, set_status user_name ''failed'' st2)
             | (Inr u, st2) \<Rightarrow> (cam1, set_status user_name ''completed'' st2)))"

text \<open>The route \<^verbatim>\<open>/status/<name>\<close>.\<close>

definition registration_status_check :: "string \<Rightarrow> state \<Rightarrow> string" where
  "registration_status_check user_name st =
     (case registration_status st user_name of
        None \<Rightarrow> ''unknown''
      | Some v \<Rightarrow> v)"

text \<open>The route \<^verbatim>\<open>/access\<close>.\<close>

definition access ::
  "numerics \<Rightarrow> config \<Rightarrow> string \<Rightarrow> camera \<Rightarrow> state
     \<Rightarrow> ((error + decision) \<times> camera \<times> state) option" where
  "access np cfg now cam st = verify_face_live np (SIMILARITY_THRESHOLD cfg) False now cam st"

subsection \<open>Observations on a run\<close>

text \<open>The probe a frame yields: its embedding after normalisation, when the iteration
  gets as far as scoring it against the rows of the database.\<close>

definition probe_of :: "numerics \<Rightarrow> vec list \<Rightarrow> frame \<Rightarrow> vec option" where
  "probe_of np db_embeds fr =
     (case rep fr of
        Embedding e \<Rightarrow>
          if e = [] \<or> length e \<noteq> length (hd db_embeds) then None else normalize_f32 np e
      | NoEmbedding \<Rightarrow> None
      | Raises \<Rightarrow> None)"

text \<open>The webcam delivers the frames of a list at its next reads.\<close>

definition delivers :: "camera \<Rightarrow> frame list \<Rightarrow> bool" where
  "delivers cam frames = (map (\<lambda>j. feed cam (pos cam + j)) [0..<length frames] = map Some frames)"

text \<open>
  The loop run over a list of frames: \<open>Some\<close> of the locals reached when it reads them
  all without leaving, \<open>None\<close> when it leaves at one of them. It has the body and the
  exit tests of \<open>verify_loop\<close>.
\<close>

fun prefix_run ::
  "numerics \<Rightarrow> real \<Rightarrow> bool \<Rightarrow> string list \<Rightarrow> vec list \<Rightarrow> frame list \<Rightarrow> locals \<Rightarrow> locals option" where
  "prefix_run np threshold show_window names db_embeds [] s = Some s"
| "prefix_run np threshold show_window names db_embeds (fr # frames) s =
     (let r = loop_body np threshold names db_embeds fr s
      in if show_window \<and> key_q fr then None
         else if 0 < fst (snd r) \<or> sublist ''Unknown'' (snd (snd r)) then None
         else prefix_run np threshold show_window names db_embeds frames (fst r))"

subsection \<open>Sample inputs\<close>

text \<open>
  The worked examples below need values for the arguments that stand for library
  code. \<open>exact_numerics\<close> carries the arithmetic out exactly and rounds to decimals;
  the examples use vectors with entries 0, 1, 2 and their negatives, on which
  normalisation and cosine similarity are exact in \<^verbatim>\<open>float32\<close> too.
  \<open>ascii_lower\<close> lowers the letters A to Z.
\<close>

definition exact_mean :: "vec list \<Rightarrow> vec" where
  "exact_mean vs =
     map (\<lambda>j. (\<Sum>v\<leftarrow>vs. v ! j) / real (length vs)) [0..<length (hd vs)]"

definition exact_normalize :: "vec \<Rightarrow> vec" where
  "exact_normalize v =
     (let n = sqrt (\<Sum>x\<leftarrow>v. x * x) in if n = 0 then v else map (\<lambda>x. x / n) v)"

definition exact_cosine :: "vec \<Rightarrow> vec \<Rightarrow> real" where
  "exact_cosine u v = (\<Sum>(x, y)\<leftarrow>zip (exact_normalize u) (exact_normalize v). x * y)"

definition exact_euclidean :: "vec \<Rightarrow> vec \<Rightarrow> real" where
  "exact_euclidean u v = sqrt (\<Sum>(x, y)\<leftarrow>zip u v. (x - y) * (x - y))"

definition exact_cityblock :: "vec \<Rightarrow> vec \<Rightarrow> real" where
  "exact_cityblock u v = (\<Sum>(x, y)\<leftarrow>zip u v. \<bar>x - y\<bar>)"

definition decimal_round :: "real \<Rightarrow> nat \<Rightarrow> real" where
  "decimal_round x n = of_int (round_half_even (x * 10 ^ n)) / 10 ^ n"

definition exact_numerics :: numerics where
  "exact_numerics =
     \<lparr>mean_f32 = (\<lambda>vs. Some (exact_mean vs)),
      normalize_f32 = (\<lambda>v. Some (exact_normalize v)),
      cosine_similarity = exact_cosine,
      euclidean = exact_euclidean,
      cityblock = exact_cityblock,
      fadd = (+), fdiv = (/), fmul = (*),
      py_round = decimal_round\<rparr>"

definition ascii_lower :: "string \<Rightarrow> string" where
  "ascii_lower s =
     map (\<lambda>c. if CHR ''A'' \<le> c \<and> c \<le> CHR ''Z'' then char_of (of_char c + (32::nat)) else c) s"

text \<open>A webcam that opens, delivers the frames of a list and then fails to read.\<close>

definition cam_of :: "frame list \<Rightarrow> camera" where
  "cam_of frames =
     \<lparr>is_opened = True,
      feed = (\<lambda>i. if i < length frames then Some (frames ! i) else None),
      pos = 0\<rparr>"

definition frame_of :: "represent \<Rightarrow> frame" where
  "frame_of r = \<lparr>rep = r, key_q = False\<rparr>"

text \<open>A state with no user, a state with two enrolled users and a state with one.\<close>

definition fresh_state :: state where
  "fresh_state =
     \<lparr>users_file = Json [], embed_file = Json [], log_file = Json [],
      cropped_dirs = Map.empty, registration_status = Map.empty\<rparr>"

definition enrolled_state :: state where
  "enrolled_state =
     \<lparr>users_file = Json [(''1a2b3c4d'', ''ann''), (''5e6f7a8b'', ''bob'')],
      embed_file = Json [(''ann'', [Some [0, 1]]), (''bob'', [Some [1, 0]])],
      log_file = Json [], cropped_dirs = Map.empty, registration_status = Map.empty\<rparr>"

definition ann_state :: state where
  "ann_state =
     \<lparr>users_file = Json [(''1a2b3c4d'', ''ann'')],
      embed_file = Json [(''ann'', [Some [0, 1]])],
      log_file = Json [], cropped_dirs = Map.empty, registration_status = Map.empty\<rparr>"

definition sample_now :: string where
  "sample_now = ''2025-01-01T00:00:00''"

text \<open>The state the route \<^verbatim>\<open>/register\<close> leaves for the new name \<^verbatim>\<open>bob\<close>, before
  its thread runs.\<close>

definition registering_state :: state where
  "registering_state =
     \<lparr>users_file = Json [(''5e6f7a8b'', ''bob'')], embed_file = Json [], log_file = Json [],
      cropped_dirs = [''bob'' \<mapsto> []], registration_status = [''bob'' \<mapsto> ''processing'']\<rparr>"

section \<open>Properties\<close>

subsection \<open>Formatting at sample values\<close>

lemma replicate_num: "replicate (numeral k) x = x # replicate (pred_numeral k) x"
  by (simp add: numeral_eq_Suc)

lemma format_f_4_zero: "format_f 4 0 = ''0.0000''"
  by (simp add: format_f_def round_half_even_def digits.simps replicate_num)

lemma format_f_4_one: "format_f 4 1 = ''1.0000''"
  by (simp add: format_f_def round_half_even_def digits.simps replicate_num)

lemma format_f_4_minus_one: "format_f 4 (- 1) = ''-1.0000''"
  by (simp add: format_f_def round_half_even_def digits.simps replicate_num)

lemma no_unknown_in_labels:
  "\<not> sublist ''Unknown'' ''Access Denied''"
  "\<not> sublist ''Unknown'' ''No Face / Error''"
  by code_simp+

subsection \<open>The first greatest entry\<close>

lemma argmax_less: "xs \<noteq> [] \<Longrightarrow> argmax xs < length xs"
  by (induction xs rule: argmax.induct) (auto simp add: Let_def)

lemma argmax_unfold:
  "argmax (x # y # ys)
     = (if x < (y # ys) ! argmax (y # ys) then Suc (argmax (y # ys)) else 0)"
  by (simp add: Let_def)

lemma argmax_greatest: "j < length xs \<Longrightarrow> xs ! j \<le> xs ! argmax xs"
proof (induction xs arbitrary: j rule: argmax.induct)
  case 1
  then show ?case by simp
next
  case (2 x)
  then show ?case by simp
next
  case (3 x y ys)
  show ?case
  proof (cases j)
    case 0
    then show ?thesis
      unfolding argmax_unfold by (simp del: argmax.simps)
  next
    case (Suc k)
    with 3 have "(y # ys) ! k \<le> (y # ys) ! argmax (y # ys)"
      by simp
    with Suc show ?thesis
      unfolding argmax_unfold by (simp del: argmax.simps)
  qed
qed

subsection \<open>Loading the database\<close>

lemma those_length: "those xs = Some ys \<Longrightarrow> length ys = length xs"
  by (induction xs arbitrary: ys) (auto split: option.splits)

lemma load_db_shape:
  assumes "load_db np st = Inr (names, db_embeds)"
  shows "\<exists>db. embed_file st = Json db \<and> db \<noteq> [] \<and> names = map fst db
           \<and> length db_embeds = length db"
proof -
  from assms obtain db where db: "embed_file st = Json db"
    by (cases "embed_file st") (simp_all add: load_db_def)
  from assms db have ne: "db \<noteq> []"
    by (auto simp add: load_db_def)
  from assms db ne obtain mat where
    mat: "those (map (\<lambda>nm. mean_vec np (snd nm)) db) = Some mat"
    by (cases "those (map (\<lambda>nm. mean_vec np (snd nm)) db)") (simp_all add: load_db_def)
  from assms db ne mat have rows: "those (map (normalize_f32 np) mat) = Some db_embeds"
    and names: "names = map fst db"
    by (auto simp add: load_db_def Let_def split: if_splits option.splits)
  from those_length [OF rows] those_length [OF mat] have "length db_embeds = length db"
    by simp
  with db ne names show ?thesis
    by blast
qed

subsection \<open>Reading frames\<close>

lemma delivers_nth:
  "delivers cam frames \<longleftrightarrow> (\<forall>j<length frames. feed cam (pos cam + j) = Some (frames ! j))"
proof
  assume d: "delivers cam frames"
  show "\<forall>j<length frames. feed cam (pos cam + j) = Some (frames ! j)"
  proof (intro allI impI)
    fix j assume j: "j < length frames"
    from d have "map (\<lambda>j. feed cam (pos cam + j)) [0..<length frames] ! j = map Some frames ! j"
      by (simp only: delivers_def)
    with j show "feed cam (pos cam + j) = Some (frames ! j)"
      by simp
  qed
next
  assume a: "\<forall>j<length frames. feed cam (pos cam + j) = Some (frames ! j)"
  show "delivers cam frames"
    unfolding delivers_def
    by (rule nth_equalityI) (simp_all add: a)
qed

lemma delivers_Cons:
  "delivers cam (fr # frames)
     \<longleftrightarrow> feed cam (pos cam) = Some fr \<and> delivers (cam\<lparr>pos := Suc (pos cam)\<rparr>) frames"
proof
  assume d: "delivers cam (fr # frames)"
  then have "feed cam (pos cam) = Some fr"
    unfolding delivers_nth by fastforce
  moreover have "delivers (cam\<lparr>pos := Suc (pos cam)\<rparr>) frames"
    unfolding delivers_nth
  proof (intro allI impI)
    fix j assume "j < length frames"
    with d have "feed cam (pos cam + Suc j) = Some ((fr # frames) ! Suc j)"
      unfolding delivers_nth by (metis Suc_less_eq length_Cons)
    then show "feed (cam\<lparr>pos := Suc (pos cam)\<rparr>) (pos (cam\<lparr>pos := Suc (pos cam)\<rparr>) + j)
        = Some (frames ! j)"
      by simp
  qed
  ultimately show "feed cam (pos cam) = Some fr \<and> delivers (cam\<lparr>pos := Suc (pos cam)\<rparr>) frames"
    by simp
next
  assume a: "feed cam (pos cam) = Some fr \<and> delivers (cam\<lparr>pos := Suc (pos cam)\<rparr>) frames"
  show "delivers cam (fr # frames)"
    unfolding delivers_nth
  proof (intro allI impI)
    fix j assume j: "j < length (fr # frames)"
    show "feed cam (pos cam + j) = Some ((fr # frames) ! j)"
    proof (cases j)
      case 0
      with a show ?thesis by simp
    next
      case (Suc k)
      with j have "k < length frames" by simp
      with a have "feed (cam\<lparr>pos := Suc (pos cam)\<rparr>) (pos (cam\<lparr>pos := Suc (pos cam)\<rparr>) + k)
          = Some (frames ! k)"
        unfolding delivers_nth by blast
      with Suc show ?thesis by simp
    qed
  qed
qed

lemma delivers_append:
  "delivers cam (frames @ [fr])
     \<Longrightarrow> delivers cam frames \<and> feed cam (pos cam + length frames) = Some fr"
  unfolding delivers_nth
  by (metis length_append_singleton less_Suc_eq nth_append nth_append_length)

subsection \<open>One iteration of the loop\<close>

lemma compute_metrics_fields:
  "sims (compute_metrics np emb db_embeds) = map (cosine_similarity np emb) db_embeds"
  "best (compute_metrics np emb db_embeds) = argmax (map (cosine_similarity np emb) db_embeds)"
  "cos_score (compute_metrics np emb db_embeds)
     = map (cosine_similarity np emb) db_embeds ! argmax (map (cosine_similarity np emb) db_embeds)"
  "euclid_score (compute_metrics np emb db_embeds)
     = fdiv np 1 (fadd np 1 (euclidean np emb
         (db_embeds ! argmax (map (cosine_similarity np emb) db_embeds))))"
  "manhattan_score (compute_metrics np emb db_embeds)
     = fdiv np 1 (fadd np 1 (cityblock np emb
         (db_embeds ! argmax (map (cosine_similarity np emb) db_embeds))))"
  by (simp_all add: compute_metrics_def Let_def)

lemma loop_body_probe:
  assumes "probe_of np db_embeds fr = Some emb"
  shows "loop_body np threshold names db_embeds fr s =
     decide np threshold names (cos_score (compute_metrics np emb db_embeds))
       (s\<lparr>max_idx := Some (best (compute_metrics np emb db_embeds)),
          decision := (decision s)\<lparr>scores :=
            [(''cosine'', py_round np (cos_score (compute_metrics np emb db_embeds)) 4),
             (''euclidean'', py_round np (euclid_score (compute_metrics np emb db_embeds)) 4),
             (''manhattan'', py_round np (manhattan_score (compute_metrics np emb db_embeds)) 4)]\<rparr>\<rparr>)"
  using assms
  by (auto simp add: probe_of_def loop_body_def Let_def split: represent.splits if_splits)

lemma decide_bound:
  assumes "max_idx s = Some i"
  shows "decide np threshold names c s =
     (if threshold < c
      then (s\<lparr>decision := (decision s)\<lparr>status := ''granted'', name := Some (names ! i),
                                       confidence := format_f 4 c\<rparr>\<rparr>,
            c, names ! i @ '' ('' @ format_f 1 (fmul np c 100) @ ''%)'')
      else (s\<lparr>decision := (decision s)\<lparr>status := ''denied'', name := Some ''Unknown'',
                                       confidence := format_f 4 c\<rparr>\<rparr>,
            c, ''Access Denied''))"
  using assms by (simp add: decide_def)

lemma loop_body_no_probe:
  assumes "probe_of np db_embeds fr = None" and "max_idx s = None"
  shows "loop_body np threshold names db_embeds fr s =
     (if rep fr = NoEmbedding \<and> 0 \<le> threshold
      then (s\<lparr>decision := (decision s)\<lparr>status := ''denied'', name := Some ''Unknown'',
                                       confidence := ''0.0000''\<rparr>\<rparr>,
            0, ''Access Denied'')
      else (s, 0, ''No Face / Error''))"
  using assms
  by (auto simp add: probe_of_def loop_body_def decide_def format_f_4_zero
           split: represent.splits if_splits option.splits)

lemma loop_body_time:
  "time (decision (fst (loop_body np threshold names db_embeds fr s))) = time (decision s)"
  by (simp add: loop_body_def decide_def Let_def split: represent.splits option.splits)

subsection \<open>The loop over a known feed\<close>

lemma verify_loop_prefix:
  assumes "delivers cam frames"
    and "prefix_run np threshold show_window names db_embeds frames s = Some s'"
  shows "verify_loop np threshold show_window names db_embeds cam s
       = verify_loop np threshold show_window names db_embeds
           (cam\<lparr>pos := pos cam + length frames\<rparr>) s'"
  using assms
proof (induction frames arbitrary: cam s)
  case Nil
  then show ?case by simp
next
  case (Cons fr frames)
  let ?r = "loop_body np threshold names db_embeds fr s"
  let ?cam = "cam\<lparr>pos := Suc (pos cam)\<rparr>"
  from Cons.prems(1) have fr: "feed cam (pos cam) = Some fr" and rest: "delivers ?cam frames"
    by (simp_all add: delivers_Cons)
  from Cons.prems(2) have stay: "\<not> (show_window \<and> key_q fr)"
    "\<not> (0 < fst (snd ?r) \<or> sublist ''Unknown'' (snd (snd ?r)))"
    and run: "prefix_run np threshold show_window names db_embeds frames (fst ?r) = Some s'"
    by (auto simp add: Let_def split: if_splits)
  have "verify_loop np threshold show_window names db_embeds cam s
      = verify_loop np threshold show_window names db_embeds ?cam (fst ?r)"
    using fr stay by (subst verify_loop.simps) (auto simp add: Let_def)
  also have "\<dots> = verify_loop np threshold show_window names db_embeds
      (?cam\<lparr>pos := pos ?cam + length frames\<rparr>) s'"
    by (rule Cons.IH [OF rest run])
  also have "?cam\<lparr>pos := pos ?cam + length frames\<rparr> = cam\<lparr>pos := pos cam + length (fr # frames)\<rparr>"
    by simp
  finally show ?case .
qed

lemma prefix_run_time:
  "prefix_run np threshold show_window names db_embeds frames s = Some s'
     \<Longrightarrow> time (decision s') = time (decision s)"
proof (induction frames arbitrary: s)
  case Nil
  then show ?case by simp
next
  case (Cons fr frames)
  from Cons.prems have
    "prefix_run np threshold show_window names db_embeds frames
       (fst (loop_body np threshold names db_embeds fr s)) = Some s'"
    by (auto simp add: Let_def split: if_splits)
  from Cons.IH [OF this] show ?case
    by (simp add: loop_body_time)
qed

lemma verify_loop_last:
  assumes fr: "feed cam (pos cam) = Some fr"
    and stop: "(show_window \<and> key_q fr)
       \<or> 0 < fst (snd (loop_body np threshold names db_embeds fr s))
       \<or> sublist ''Unknown'' (snd (snd (loop_body np threshold names db_embeds fr s)))
       \<or> feed cam (Suc (pos cam)) = None"
  shows "verify_loop np threshold show_window names db_embeds cam s
       = Some (cam\<lparr>pos := Suc (pos cam)\<rparr>, fst (loop_body np threshold names db_embeds fr s))"
proof (cases "(show_window \<and> key_q fr)
       \<or> 0 < fst (snd (loop_body np threshold names db_embeds fr s))
       \<or> sublist ''Unknown'' (snd (snd (loop_body np threshold names db_embeds fr s)))")
  case True
  with fr show ?thesis
    by (subst verify_loop.simps) (auto simp add: Let_def)
next
  case False
  with stop have none: "feed cam (Suc (pos cam)) = None"
    by blast
  have "verify_loop np threshold show_window names db_embeds cam s
      = verify_loop np threshold show_window names db_embeds (cam\<lparr>pos := Suc (pos cam)\<rparr>)
          (fst (loop_body np threshold names db_embeds fr s))"
    using fr False by (subst verify_loop.simps) (auto simp add: Let_def)
  also have "\<dots> = Some (cam\<lparr>pos := Suc (pos cam)\<rparr>,
      fst (loop_body np threshold names db_embeds fr s))"
    using none by (subst verify_loop.simps) simp
  finally show ?thesis .
qed

lemma verify_loop_no_probe:
  assumes "delivers cam frames"
    and "list_all (\<lambda>fr. probe_of np db_embeds fr = None) frames"
    and "list_all (\<lambda>fr. \<not> (show_window \<and> key_q fr)) (butlast frames)"
    and "feed cam (pos cam + length frames) = None
       \<or> (frames \<noteq> [] \<and> show_window \<and> key_q (last frames))"
    and "max_idx s = None"
  shows "verify_loop np threshold show_window names db_embeds cam s
       = Some (cam\<lparr>pos := pos cam + length frames\<rparr>,
               if 0 \<le> threshold \<and> list_ex (\<lambda>fr. rep fr = NoEmbedding) frames
               then s\<lparr>decision := (decision s)\<lparr>status := ''denied'', name := Some ''Unknown'',
                                              confidence := ''0.0000''\<rparr>\<rparr>
               else s)"
  using assms
proof (induction frames arbitrary: cam s)
  case Nil
  then show ?case
    by (subst verify_loop.simps) simp
next
  case (Cons fr frames)
  let ?r = "loop_body np threshold names db_embeds fr s"
  let ?cam = "cam\<lparr>pos := Suc (pos cam)\<rparr>"
  from Cons.prems(1) have fr: "feed cam (pos cam) = Some fr" and rest: "delivers ?cam frames"
    by (simp_all add: delivers_Cons)
  from Cons.prems(2) have none: "probe_of np db_embeds fr = None"
    and nones: "list_all (\<lambda>fr. probe_of np db_embeds fr = None) frames"
    by simp_all
  note body = loop_body_no_probe [OF none Cons.prems(5), of threshold names]
  show ?case
  proof (cases "frames = []")
    case True
    with Cons.prems(4) have "(show_window \<and> key_q fr) \<or> feed cam (Suc (pos cam)) = None"
      by auto
    then have "verify_loop np threshold show_window names db_embeds cam s
        = Some (?cam, fst ?r)"
      using verify_loop_last [OF fr, of show_window np threshold names db_embeds s] by blast
    with True show ?thesis
      by (simp add: body)
  next
    case False
    with Cons.prems(3) have stay: "\<not> (show_window \<and> key_q fr)"
      and stays: "list_all (\<lambda>fr. \<not> (show_window \<and> key_q fr)) (butlast frames)"
      by simp_all
    from False Cons.prems(4) have stop:
      "feed ?cam (pos ?cam + length frames) = None
        \<or> (frames \<noteq> [] \<and> show_window \<and> key_q (last frames))"
      by auto
    have m: "max_idx (fst ?r) = None"
      using Cons.prems(5) by (simp add: body)
    have "verify_loop np threshold show_window names db_embeds cam s
        = verify_loop np threshold show_window names db_embeds ?cam (fst ?r)"
      using fr stay by (subst verify_loop.simps) (auto simp add: Let_def body no_unknown_in_labels)
    also note Cons.IH [OF rest nones stays stop m]
    finally show ?thesis
      by (auto simp add: body)
  qed
qed

subsection \<open>The decision of a run whose last frame is scored\<close>

lemma verify_face_live_loop:
  assumes "load_db np st = Inr (names, db_embeds)" and "is_opened cam"
    and "verify_loop np threshold show_window names db_embeds cam
           \<lparr>decision = initial_decision now, max_idx = None\<rparr> = Some (cam', s)"
  shows "verify_face_live np threshold show_window now cam st
       = Some (Inr (decision s), cam', append_log (decision s) st)"
  using assms by (simp add: verify_face_live_def convert_json_safe_def Let_def)

lemma decision_rebuilt:
  assumes "time d0 = now"
  shows "d0\<lparr>scores := sc, status := x, name := y, confidence := z\<rparr>
       = \<lparr>status = x, name = y, confidence = z, scores = sc, time = now\<rparr>"
  using assms by (cases d0) simp

lemma verify_run_last_probe:
  assumes db: "load_db np st = Inr (names, db_embeds)"
    and opened: "is_opened cam"
    and reads: "delivers cam (frames @ [fr])"
    and before: "prefix_run np threshold show_window names db_embeds frames
                   \<lparr>decision = initial_decision now, max_idx = None\<rparr> = Some s0"
    and probe: "probe_of np db_embeds fr = Some emb"
    and metrics: "compute_metrics np emb db_embeds = m"
    and stop: "(show_window \<and> key_q fr) \<or> 0 < cos_score m
       \<or> (threshold < cos_score m
          \<and> sublist ''Unknown''
               (names ! best m @ '' ('' @ format_f 1 (fmul np (cos_score m) 100) @ ''%)''))
       \<or> feed cam (pos cam + length frames + 1) = None"
  shows "verify_face_live np threshold show_window now cam st
       = Some (Inr \<lparr>status = (if threshold < cos_score m then ''granted'' else ''denied''),
                    name = (if threshold < cos_score m then Some (names ! best m)
                            else Some ''Unknown''),
                    confidence = format_f 4 (cos_score m),
                    scores = [(''cosine'', py_round np (cos_score m) 4),
                              (''euclidean'', py_round np (euclid_score m) 4),
                              (''manhattan'', py_round np (manhattan_score m) 4)],
                    time = now\<rparr>,
               cam\<lparr>pos := pos cam + length frames + 1\<rparr>,
               append_log
                 \<lparr>status = (if threshold < cos_score m then ''granted'' else ''denied''),
                  name = (if threshold < cos_score m then Some (names ! best m)
                          else Some ''Unknown''),
                  confidence = format_f 4 (cos_score m),
                  scores = [(''cosine'', py_round np (cos_score m) 4),
                            (''euclidean'', py_round np (euclid_score m) 4),
                            (''manhattan'', py_round np (manhattan_score m) 4)],
                  time = now\<rparr> st)"
proof -
  let ?init = "\<lparr>decision = initial_decision now, max_idx = None\<rparr>"
  let ?cam = "cam\<lparr>pos := pos cam + length frames\<rparr>"
  let ?sc = "[(''cosine'', py_round np (cos_score m) 4),
              (''euclidean'', py_round np (euclid_score m) 4),
              (''manhattan'', py_round np (manhattan_score m) 4)]"
  let ?s1 = "s0\<lparr>max_idx := Some (best m), decision := (decision s0)\<lparr>scores := ?sc\<rparr>\<rparr>"
  let ?r = "loop_body np threshold names db_embeds fr s0"
  from delivers_append [OF reads] have pre: "delivers cam frames"
    and fr: "feed ?cam (pos ?cam) = Some fr"
    by simp_all
  have body: "?r = decide np threshold names (cos_score m) ?s1"
    using loop_body_probe [OF probe, of threshold names s0] by (simp add: metrics)
  have r: "?r = (if threshold < cos_score m
      then (?s1\<lparr>decision := (decision ?s1)\<lparr>status := ''granted'', name := Some (names ! best m),
                                           confidence := format_f 4 (cos_score m)\<rparr>\<rparr>,
            cos_score m,
            names ! best m @ '' ('' @ format_f 1 (fmul np (cos_score m) 100) @ ''%)'')
      else (?s1\<lparr>decision := (decision ?s1)\<lparr>status := ''denied'', name := Some ''Unknown'',
                                           confidence := format_f 4 (cos_score m)\<rparr>\<rparr>,
            cos_score m, ''Access Denied''))"
    unfolding body by (rule decide_bound) simp
  have stop': "(show_window \<and> key_q fr) \<or> 0 < fst (snd ?r)
       \<or> sublist ''Unknown'' (snd (snd ?r)) \<or> feed ?cam (Suc (pos ?cam)) = None"
    using stop unfolding r by auto
  have "time (decision s0) = now"
    using prefix_run_time [OF before] by (simp add: initial_decision_def)
  then have d: "decision (fst ?r)
      = \<lparr>status = (if threshold < cos_score m then ''granted'' else ''denied''),
         name = (if threshold < cos_score m then Some (names ! best m) else Some ''Unknown''),
         confidence = format_f 4 (cos_score m), scores = ?sc, time = now\<rparr>"
    unfolding r by (simp add: decision_rebuilt)
  have "verify_loop np threshold show_window names db_embeds cam ?init
      = verify_loop np threshold show_window names db_embeds ?cam s0"
    by (rule verify_loop_prefix [OF pre before])
  also have "\<dots> = Some (?cam\<lparr>pos := Suc (pos ?cam)\<rparr>, fst ?r)"
    by (rule verify_loop_last [OF fr stop'])
  also have "?cam\<lparr>pos := Suc (pos ?cam)\<rparr> = cam\<lparr>pos := pos cam + length frames + 1\<rparr>"
    by simp
  finally show ?thesis
    using verify_face_live_loop [OF db opened] by (simp only: d)
qed

subsection \<open>Sample values\<close>

lemma exact_numerics_fields:
  "mean_f32 exact_numerics vs = Some (exact_mean vs)"
  "normalize_f32 exact_numerics v = Some (exact_normalize v)"
  "cosine_similarity exact_numerics = exact_cosine"
  "euclidean exact_numerics = exact_euclidean"
  "cityblock exact_numerics = exact_cityblock"
  "fadd exact_numerics x y = x + y"
  "fdiv exact_numerics x y = x / y"
  "fmul exact_numerics x y = x * y"
  "py_round exact_numerics = decimal_round"
  by (simp_all add: exact_numerics_def)

lemma exact_normalize_samples:
  "exact_normalize [0, 1] = [0, 1]"
  "exact_normalize [1, 0] = [1, 0]"
  "exact_normalize [2, 0] = [1, 0]"
  "exact_normalize [0, - 1] = [0, - 1]"
  by (simp_all add: exact_normalize_def)

lemma decimal_round_samples:
  "decimal_round 0 4 = 0"
  "decimal_round 1 4 = 1"
  "decimal_round (- 1) 4 = - 1"
  "decimal_round (1 / 3) 4 = 3333 / 10000"
  by (simp_all add: decimal_round_def round_half_even_def)

lemma format_f_1_zero: "format_f 1 0 = ''0.0''"
  by (simp add: format_f_def round_half_even_def digits.simps)

lemma no_unknown_in_ann: "\<not> sublist ''Unknown'' ''ann (0.0%)''"
  by code_simp

lemma load_db_enrolled:
  "load_db exact_numerics enrolled_state = Inr ([''ann'', ''bob''], [[0, 1], [1, 0]])"
  by (simp add: load_db_def enrolled_state_def mean_vec_def rectangular_def exact_mean_def
        exact_numerics_fields exact_normalize_samples)

lemma load_db_ann: "load_db exact_numerics ann_state = Inr ([''ann''], [[0, 1]])"
  by (simp add: load_db_def ann_state_def mean_vec_def rectangular_def exact_mean_def
        exact_numerics_fields exact_normalize_samples)

lemma compute_metrics_sample:
  "compute_metrics exact_numerics [1, 0] [[0, 1], [1, 0]]
     = \<lparr>sims = [0, 1], best = 1, cos_score = 1, euclid_score = 1, manhattan_score = 1\<rparr>"
  by (simp add: compute_metrics_def exact_numerics_fields exact_cosine_def
        exact_normalize_samples exact_euclidean_def exact_cityblock_def)

lemma compute_metrics_opposite:
  "compute_metrics exact_numerics [0, - 1] [[0, 1]]
     = \<lparr>sims = [- 1], best = 0, cos_score = - 1, euclid_score = 1 / 3,
        manhattan_score = 1 / 3\<rparr>"
  by (simp add: compute_metrics_def exact_numerics_fields exact_cosine_def
        exact_normalize_samples exact_euclidean_def exact_cityblock_def)

lemma compute_metrics_orthogonal:
  "compute_metrics exact_numerics [1, 0] [[0, 1]]
     = \<lparr>sims = [0], best = 0, cos_score = 0, euclid_score = 1 / (1 + sqrt 2),
        manhattan_score = 1 / 3\<rparr>"
  by (simp add: compute_metrics_def exact_numerics_fields exact_cosine_def
        exact_normalize_samples exact_euclidean_def exact_cityblock_def)

lemma probe_samples:
  "probe_of exact_numerics [[0, 1], [1, 0]] (frame_of (Embedding [2, 0])) = Some [1, 0]"
  "probe_of exact_numerics [[0, 1]] (frame_of (Embedding [0, - 1])) = Some [0, - 1]"
  "probe_of exact_numerics [[0, 1]] (frame_of (Embedding [1, 0])) = Some [1, 0]"
  "probe_of np db_embeds (frame_of NoEmbedding) = None"
  "probe_of np db_embeds (frame_of Raises) = None"
  by (simp_all add: probe_of_def frame_of_def exact_numerics_fields exact_normalize_samples)

lemma cam_of_delivers: "delivers (cam_of frames) frames"
  by (simp add: delivers_nth cam_of_def)

lemma cam_of_end: "feed (cam_of frames) (length frames) = None"
  by (simp add: cam_of_def)

subsection \<open>Sample runs\<close>

lemma run_opposite_then_none:
  "map_option fst
     (verify_face_live exact_numerics (1 / 2) False sample_now
        (cam_of [frame_of (Embedding [0, - 1]), frame_of NoEmbedding]) ann_state)
     = Some (Inr \<lparr>status = ''denied'', name = Some ''Unknown'', confidence = ''0.0000'',
                  scores = [(''cosine'', - 1), (''euclidean'', 3333 / 10000),
                            (''manhattan'', 3333 / 10000)],
                  time = sample_now\<rparr>)"
  apply (simp add: verify_face_live_def load_db_ann cam_of_def frame_of_def)
  apply (subst verify_loop.simps)
  apply (simp add: loop_body_def decide_def exact_numerics_fields exact_normalize_samples
      compute_metrics_opposite decimal_round_samples no_unknown_in_labels Let_def)
  apply (subst verify_loop.simps)
  apply (simp add: loop_body_def decide_def format_f_4_zero no_unknown_in_labels Let_def)
  apply (subst verify_loop.simps)
  apply (simp add: initial_decision_def convert_json_safe_def Let_def)
  done

lemma run_opposite_then_none_negative_threshold:
  "map_option fst
     (verify_face_live exact_numerics (- 1 / 2) False sample_now
        (cam_of [frame_of (Embedding [0, - 1]), frame_of NoEmbedding]) ann_state)
     = Some (Inr \<lparr>status = ''granted'', name = Some ''ann'', confidence = ''0.0000'',
                  scores = [(''cosine'', - 1), (''euclidean'', 3333 / 10000),
                            (''manhattan'', 3333 / 10000)],
                  time = sample_now\<rparr>)"
  apply (simp add: verify_face_live_def load_db_ann cam_of_def frame_of_def)
  apply (subst verify_loop.simps)
  apply (simp add: loop_body_def decide_def exact_numerics_fields exact_normalize_samples
      compute_metrics_opposite decimal_round_samples no_unknown_in_labels Let_def)
  apply (subst verify_loop.simps)
  apply (simp add: loop_body_def decide_def format_f_4_zero format_f_1_zero
      exact_numerics_fields no_unknown_in_ann Let_def)
  apply (subst verify_loop.simps)
  apply (simp add: initial_decision_def convert_json_safe_def Let_def)
  done

lemma run_orthogonal:
  "map_option fst
     (verify_face_live exact_numerics (1 / 2) False sample_now
        (cam_of [frame_of (Embedding [1, 0])]) ann_state)
     = Some (Inr \<lparr>status = ''denied'', name = Some ''Unknown'', confidence = ''0.0000'',
                  scores = [(''cosine'', 0),
                            (''euclidean'', decimal_round (1 / (1 + sqrt 2)) 4),
                            (''manhattan'', 3333 / 10000)],
                  time = sample_now\<rparr>)"
  apply (simp add: verify_face_live_def load_db_ann cam_of_def frame_of_def)
  apply (subst verify_loop.simps)
  apply (simp add: loop_body_def decide_def exact_numerics_fields exact_normalize_samples
      compute_metrics_orthogonal decimal_round_samples format_f_4_zero
      no_unknown_in_labels Let_def)
  apply (subst verify_loop.simps)
  apply (simp add: initial_decision_def convert_json_safe_def Let_def)
  done

lemma run_orthogonal_then_none:
  "map_option fst
     (verify_face_live exact_numerics (1 / 2) False sample_now
        (cam_of [frame_of (Embedding [1, 0]), frame_of NoEmbedding]) ann_state)
     = Some (Inr \<lparr>status = ''denied'', name = Some ''Unknown'', confidence = ''0.0000'',
                  scores = [(''cosine'', 0),
                            (''euclidean'', decimal_round (1 / (1 + sqrt 2)) 4),
                            (''manhattan'', 3333 / 10000)],
                  time = sample_now\<rparr>)"
  apply (simp add: verify_face_live_def load_db_ann cam_of_def frame_of_def)
  apply (subst verify_loop.simps)
  apply (simp add: loop_body_def decide_def exact_numerics_fields exact_normalize_samples
      compute_metrics_orthogonal decimal_round_samples format_f_4_zero
      no_unknown_in_labels Let_def)
  apply (subst verify_loop.simps)
  apply (simp add: loop_body_def decide_def format_f_4_zero no_unknown_in_labels Let_def)
  apply (subst verify_loop.simps)
  apply (simp add: initial_decision_def convert_json_safe_def Let_def)
  done

lemma run_none:
  "map_option fst
     (verify_face_live exact_numerics (1 / 2) False sample_now
        (cam_of [frame_of NoEmbedding]) ann_state)
     = Some (Inr \<lparr>status = ''denied'', name = Some ''Unknown'', confidence = ''0.0000'',
                  scores = [], time = sample_now\<rparr>)"
  apply (simp add: verify_face_live_def load_db_ann cam_of_def frame_of_def)
  apply (subst verify_loop.simps)
  apply (simp add: loop_body_def decide_def format_f_4_zero no_unknown_in_labels Let_def)
  apply (subst verify_loop.simps)
  apply (simp add: initial_decision_def convert_json_safe_def Let_def)
  done

subsection \<open>Registration at sample inputs\<close>

lemma capture_loop_numeral:
  "capture_loop user_name (numeral k) i cam st =
     (case feed cam (pos cam) of
        None \<Rightarrow> (i, cam, st)
      | Some fr \<Rightarrow>
          capture_loop user_name (pred_numeral k) (Suc i) (cam\<lparr>pos := Suc (pos cam)\<rparr>)
            (write_cropped user_name (image_name i) (rep fr) st))"
  by (simp add: numeral_eq_Suc)

lemma capture_loop_end:
  "feed cam (pos cam) = None \<Longrightarrow> capture_loop user_name n i cam st = (i, cam, st)"
  by (cases n) simp_all

lemma digits_samples: "digits (Suc 0) = ''1''" "digits (Suc (Suc 0)) = ''2''"
  by (simp_all add: digits.simps)

lemma image_names:
  "ascii_lower (path_suffix ''img_1.jpg'') = ''.jpg''"
  "ascii_lower (path_suffix ''img_2.jpg'') = ''.jpg''"
  "''img_1.jpg'' \<le> ''img_2.jpg''"
  by code_simp+

lemma member_jpg: "List.member [''.jpg'', ''.jpeg'', ''.png''] ''.jpg''"
  by simp

lemma register_bob:
  "register_user ascii_lower (Some ''bob'') ''5e6f7a8b'' fresh_state
     = ((200, [(''message'', ''User '' @ [CHR 0x27] @ ''bob'' @ [CHR 0x27]
                             @ '' registration started''),
               (''user_id'', ''5e6f7a8b'')]),
        registering_state, Some ''bob'')"
  by (simp add: register_user_def add_user_record_def list_users_def fresh_state_def
        mkdir_cropped_def set_status_def registering_state_def)

lemma registration_one_failing_frame:
  "process_registration exact_numerics ascii_lower default_config ''bob''
     (cam_of [frame_of Raises]) registering_state
   = ((cam_of [frame_of Raises])\<lparr>pos := 1\<rparr>,
      registering_state
        \<lparr>cropped_dirs := [''bob'' \<mapsto> [(''img_1.jpg'', Raises)]],
         registration_status := [''bob'' \<mapsto> ''completed'']\<rparr>)"
  by (simp add: process_registration_def capture_user_images_def default_config_def
        capture_loop_numeral capture_loop_end cam_of_def frame_of_def registering_state_def
        mkdir_cropped_def write_cropped_def image_name_def digits_samples
        generate_and_save_embeddings_for_user_def compute_embeddings_for_folder_def
        image_names member_jpg average_embeddings_def save_user_embeddings_def set_status_def)

subsection \<open>File names of the captured images\<close>

lemma digit_char:
  assumes "d < 10"
  shows "of_char (''0123456789'' ! d) = (48 + d :: nat)"
proof -
  from assms have "d \<in> {0, 1, 2, 3, 4, 5, 6, 7, 8, 9}"
    by auto
  then show ?thesis
    by auto
qed

lemma undigits_digits:
  "foldl (\<lambda>a c. 10 * a + (of_char c - 48)) (0::nat) (digits n) = n"
proof (induction n rule: digits.induct)
  case (1 n)
  show ?case
  proof (cases "n < 10")
    case True
    then show ?thesis
      by (subst digits.simps) (simp add: digit_char)
  next
    case False
    with 1 have "foldl (\<lambda>a c. 10 * a + (of_char c - 48)) (0::nat) (digits (n div 10)) = n div 10"
      by simp
    with False show ?thesis
      by (subst digits.simps) (simp add: digit_char)
  qed
qed

lemma digits_inj:
  assumes "digits m = digits n"
  shows "m = n"
proof -
  have "foldl (\<lambda>a c. 10 * a + (of_char c - 48)) (0::nat) (digits m)
      = foldl (\<lambda>a c. 10 * a + (of_char c - 48)) (0::nat) (digits n)"
    by (simp only: assms)
  then show ?thesis
    by (simp only: undigits_digits)
qed

lemma image_name_inj: "image_name i = image_name j \<Longrightarrow> i = j"
  using digits_inj [of "i + 1" "j + 1"] by (simp add: image_name_def)

lemma path_suffix_image_name: "path_suffix (image_name i) = ''.jpg''"
  by (simp add: path_suffix_def image_name_def)

subsection \<open>The images a capture writes\<close>

lemma update_fresh: "k \<notin> fst ` set al \<Longrightarrow> AList.update k v al = al @ [(k, v)]"
  by (induction al) auto

lemma capture_loop_frames:
  assumes "delivers cam frames"
    and "length frames \<le> n"
    and "length frames = n \<or> feed cam (pos cam + length frames) = None"
    and "cropped_dirs st u = Some files"
    and "fst ` set files \<subseteq> image_name ` {..<i}"
  shows "capture_loop u n i cam st
       = (i + length frames, cam\<lparr>pos := pos cam + length frames\<rparr>,
          st\<lparr>cropped_dirs := (cropped_dirs st)
                (u \<mapsto> files @ map (\<lambda>p. (image_name (fst p), rep (snd p)))
                                  (zip [i..<i + length frames] frames))\<rparr>)"
  using assms
proof (induction frames arbitrary: n i cam st files)
  case Nil
  from Nil.prems(3) have "n = 0 \<or> feed cam (pos cam) = None"
    by auto
  then have "capture_loop u n i cam st = (i, cam, st)"
    by (auto simp add: capture_loop_end)
  moreover from Nil.prems(4) have "(cropped_dirs st)(u \<mapsto> files) = cropped_dirs st"
    by (rule map_upd_triv)
  ultimately show ?case
    by simp
next
  case (Cons fr frs)
  from Cons.prems(2) obtain n' where n: "n = Suc n'" and le: "length frs \<le> n'"
    by (cases n) auto
  from Cons.prems(1) have rd: "feed cam (pos cam) = Some fr"
    and dl: "delivers (cam\<lparr>pos := Suc (pos cam)\<rparr>) frs"
    by (simp_all add: delivers_Cons)
  let ?cam = "cam\<lparr>pos := Suc (pos cam)\<rparr>"
  let ?st = "write_cropped u (image_name i) (rep fr) st"
  let ?files = "files @ [(image_name i, rep fr)]"
  have fresh: "image_name i \<notin> fst ` set files"
  proof
    assume "image_name i \<in> fst ` set files"
    with Cons.prems(5) obtain j where "j < i" and "image_name i = image_name j"
      by auto
    then show False
      using image_name_inj [of i j] by simp
  qed
  have st: "?st = st\<lparr>cropped_dirs := (cropped_dirs st)(u \<mapsto> ?files)\<rparr>"
    using Cons.prems(4) fresh by (simp add: write_cropped_def update_fresh)
  then have dir: "cropped_dirs ?st u = Some ?files"
    by simp
  have inv: "fst ` set ?files \<subseteq> image_name ` {..<Suc i}"
    using Cons.prems(5) by (auto simp add: less_Suc_eq)
  from Cons.prems(3) n
  have stop: "length frs = n' \<or> feed ?cam (pos ?cam + length frs) = None"
    by auto
  have step: "capture_loop u n i cam st = capture_loop u n' (Suc i) ?cam ?st"
    using n rd by simp
  have "[i..<Suc (i + length frs)] = i # [Suc i..<Suc (i + length frs)]"
    by (rule upt_conv_Cons) simp
  then have upt: "[i..<i + length (fr # frs)] = i # [Suc i..<Suc i + length frs]"
    by (simp del: upt_Suc)
  have "capture_loop u n' (Suc i) ?cam ?st
       = (Suc i + length frs, ?cam\<lparr>pos := pos ?cam + length frs\<rparr>,
          ?st\<lparr>cropped_dirs := (cropped_dirs ?st)
                (u \<mapsto> ?files @ map (\<lambda>p. (image_name (fst p), rep (snd p)))
                                   (zip [Suc i..<Suc i + length frs] frs))\<rparr>)"
    by (rule Cons.IH [OF dl le stop dir inv])
  also have "\<dots> = (i + length (fr # frs), cam\<lparr>pos := pos cam + length (fr # frs)\<rparr>,
          st\<lparr>cropped_dirs := (cropped_dirs st)
                (u \<mapsto> files @ map (\<lambda>p. (image_name (fst p), rep (snd p)))
                                  (zip [i..<i + length (fr # frs)] (fr # frs)))\<rparr>)"
    unfolding upt st by simp
  finally have "capture_loop u n' (Suc i) ?cam ?st
       = (i + length (fr # frs), cam\<lparr>pos := pos cam + length (fr # frs)\<rparr>,
          st\<lparr>cropped_dirs := (cropped_dirs st)
                (u \<mapsto> files @ map (\<lambda>p. (image_name (fst p), rep (snd p)))
                                  (zip [i..<i + length (fr # frs)] (fr # frs)))\<rparr>)" .
  then show ?case
    by (simp only: step)
qed

subsection \<open>The embeddings of a folder of images\<close>

lemma insort_key_map_commute:
  "insort_key f (g x) (map g xs) = map g (insort_key (\<lambda>a. f (g a)) x xs)"
  by (induction xs) simp_all

lemma sort_key_map_commute: "sort_key f (map g xs) = map g (sort_key (\<lambda>a. f (g a)) xs)"
  by (induction xs) (simp_all add: insort_key_map_commute)

lemma captured_files_embeddings:
  assumes "length js = length frames" and "map rep frames = map Embedding es"
  shows "map (\<lambda>p. (f (fst p), rep (snd p))) (zip js frames)
       = map (\<lambda>q. (fst q, Embedding (snd q))) (zip (map f js) es)"
  using assms
proof (induction frames arbitrary: js es)
  case Nil
  then show ?case by simp
next
  case (Cons fr frs)
  then show ?case
    by (cases js; cases es) auto
qed

lemma concat_embeddings:
  "concat (map (\<lambda>p. case snd p of Embedding v \<Rightarrow> [v] | NoEmbedding \<Rightarrow> [] | Raises \<Rightarrow> [])
             (map (\<lambda>q. (fst q, Embedding (snd q))) ys)) = map snd ys"
  by (induction ys) simp_all

lemma compute_embeddings_of_images:
  assumes "cropped_dirs st folder_name = Some (map (\<lambda>q. (fst q, Embedding (snd q))) ys)"
    and "list_all (\<lambda>q. List.member [''.jpg'', ''.jpeg'', ''.png''] (lower (path_suffix (fst q)))) ys"
  shows "compute_embeddings_for_folder lower folder_name st = map snd (sort_key fst ys)"
proof -
  let ?g = "\<lambda>q. (fst q, Embedding (snd q))"
  have keep: "filter (\<lambda>p. List.member [''.jpg'', ''.jpeg'', ''.png''] (lower (path_suffix (fst p))))
                (map ?g ys) = map ?g ys"
    using assms(2) by (induction ys) simp_all
  have "sort_key fst (map ?g ys) = map ?g (sort_key fst ys)"
    using sort_key_map_commute [of fst ?g ys] by simp
  with assms(1) keep show ?thesis
    by (simp only: compute_embeddings_for_folder_def option.case Let_def concat_embeddings)
qed

subsection \<open>A registration whose samples all yield an embedding\<close>

lemma sorted_embeddings_set:
  assumes "length ns = length es"
  shows "set (map snd (sort_key fst (zip ns es))) = set es"
proof -
  have "set (map snd (sort_key fst (zip ns es))) = set (map snd (zip ns es))"
    by simp
  also have "\<dots> = set es"
    using assms by simp
  finally show ?thesis .
qed

lemma rectangular_sorted:
  assumes "rectangular es" and "length ns = length es"
  shows "rectangular (map snd (sort_key fst (zip ns es)))"
proof (cases "es = []")
  case True
  with assms show ?thesis
    by (simp add: rectangular_def)
next
  case False
  let ?embs = "map snd (sort_key fst (zip ns es))"
  from assms(1) have all: "\<forall>e\<in>set es. length e = length (hd es)"
    by (simp add: rectangular_def list_all_iff)
  have same: "set ?embs = set es"
    by (rule sorted_embeddings_set [OF assms(2)])
  from False same have "?embs \<noteq> []"
    by (metis set_empty)
  then have "hd ?embs \<in> set es"
    using same hd_in_set by blast
  with all have "length (hd ?embs) = length (hd es)"
    by simp
  with all same show ?thesis
    by (simp add: rectangular_def list_all_iff)
qed

lemma registration_run:
  assumes opened: "is_opened cam"
    and reads: "delivers cam frames"
    and usable: "map rep frames = map Embedding es"
    and some: "frames \<noteq> []"
    and bound: "length frames \<le> NUM_IMAGES cfg"
    and stop: "length frames = NUM_IMAGES cfg \<or> feed cam (pos cam + length frames) = None"
    and dims: "rectangular es"
    and empty: "cropped_dirs st user_name = None \<or> cropped_dirs st user_name = Some []"
    and jpg: "lower ''.jpg'' = ''.jpg''"
    and embs: "embs = map snd (sort_key fst (zip (map image_name [0..<length es]) es))"
  shows "fst (process_registration np lower cfg user_name cam st)
           = cam\<lparr>pos := pos cam + length frames\<rparr>
       \<and> stored_vectors (snd (process_registration np lower cfg user_name cam st)) user_name
           = Some [mean_f32 np embs]
       \<and> registration_status (snd (process_registration np lower cfg user_name cam st)) user_name
           = Some ''completed''"
proof -
  let ?st1 = "mkdir_cropped user_name st"
  let ?ys = "zip (map image_name [0..<length es]) es"
  let ?files = "map (\<lambda>q. (fst q, Embedding (snd q))) ?ys"
  let ?st2 = "?st1\<lparr>cropped_dirs := (cropped_dirs ?st1)(user_name \<mapsto> ?files)\<rparr>"
  from usable have len: "length frames = length es"
    using map_eq_imp_length_eq by blast
  from empty have dir1: "cropped_dirs ?st1 user_name = Some []"
    by (auto simp add: mkdir_cropped_def)
  have "capture_loop user_name (NUM_IMAGES cfg) 0 cam ?st1
      = (0 + length frames, cam\<lparr>pos := pos cam + length frames\<rparr>,
         ?st1\<lparr>cropped_dirs := (cropped_dirs ?st1)
                (user_name \<mapsto> [] @ map (\<lambda>p. (image_name (fst p), rep (snd p)))
                                        (zip [0..<0 + length frames] frames))\<rparr>)"
    by (rule capture_loop_frames [OF reads bound stop dir1]) simp
  moreover have "map (\<lambda>p. (image_name (fst p), rep (snd p))) (zip [0..<length frames] frames)
      = ?files"
    using captured_files_embeddings [of "[0..<length frames]" frames es image_name] usable len
    by simp
  ultimately have cap: "capture_loop user_name (NUM_IMAGES cfg) 0 cam ?st1
      = (length frames, cam\<lparr>pos := pos cam + length frames\<rparr>, ?st2)"
    by simp
  have images: "list_all (\<lambda>q. List.member [''.jpg'', ''.jpeg'', ''.png'']
                                 (lower (path_suffix (fst q)))) ?ys"
    unfolding list_all_iff
  proof
    fix q assume "q \<in> set ?ys"
    then have "fst q \<in> set (map image_name [0..<length es])"
      by (metis in_set_zipE prod.collapse)
    then obtain i where "fst q = image_name i"
      by auto
    then show "List.member [''.jpg'', ''.jpeg'', ''.png''] (lower (path_suffix (fst q)))"
      by (simp add: path_suffix_image_name jpg)
  qed
  have dir2: "cropped_dirs ?st2 user_name = Some ?files"
    by simp
  have comp: "compute_embeddings_for_folder lower user_name ?st2 = embs"
    unfolding embs by (rule compute_embeddings_of_images [OF dir2 images])
  have "length embs = length es"
    unfolding embs by simp
  with some len have ne: "embs \<noteq> []"
    by auto
  have rect: "rectangular embs"
    unfolding embs by (rule rectangular_sorted [OF dims]) simp
  have avg: "average_embeddings np embs = Inr [mean_f32 np embs]"
    using ne rect by (simp add: average_embeddings_def)
  have gen: "generate_and_save_embeddings_for_user np lower user_name user_name ?st2
      = (Inr (), snd (save_user_embeddings user_name [mean_f32 np embs] ?st2))"
    by (simp add: generate_and_save_embeddings_for_user_def comp avg split: prod.splits)
  from some have pos: "length frames \<noteq> 0"
    by simp
  have run: "process_registration np lower cfg user_name cam st
      = (cam\<lparr>pos := pos cam + length frames\<rparr>,
         set_status user_name ''completed''
           (snd (save_user_embeddings user_name [mean_f32 np embs] ?st2)))"
    using opened pos
    by (simp add: process_registration_def capture_user_images_def Let_def cap gen)
  show ?thesis
    unfolding run
    by (simp add: set_status_def stored_vectors_def save_user_embeddings_def Let_def
          update_conv' split: json_file.splits)
qed

subsection \<open>A registration with two samples\<close>

lemma image_name_samples:
  "image_name 0 = ''img_1.jpg''" "image_name (Suc 0) = ''img_2.jpg''"
  by (simp_all add: image_name_def digits_samples)

lemma two_frames_sorted:
  "map snd (sort_key fst (zip (map image_name [0..<length [[1, 0], [0, 1::real]]])
                               [[1, 0], [0, 1]]))
     = [[1, 0], [0, 1]]"
proof -
  have "[0..<length [[1, 0], [0, 1::real]]] = [0, Suc 0]"
    by (simp add: upt_rec)
  then show ?thesis
    by (simp add: image_name_samples image_names)
qed

lemma two_frames_mean: "mean_f32 exact_numerics [[1, 0], [0, 1]] = Some [1 / 2, 1 / 2]"
  by (simp add: exact_numerics_def exact_mean_def upt_rec)

lemma two_frames_reads:
  "is_opened (cam_of [frame_of (Embedding [1, 0]), frame_of (Embedding [0, 1])])"
  "map rep [frame_of (Embedding [1, 0]), frame_of (Embedding [0, 1])]
     = map Embedding [[1, 0], [0, 1]]"
  "length [frame_of (Embedding [1, 0]), frame_of (Embedding [0, 1])] \<le> NUM_IMAGES default_config"
  "length [frame_of (Embedding [1, 0]), frame_of (Embedding [0, 1])] = NUM_IMAGES default_config
   \<or> feed (cam_of [frame_of (Embedding [1, 0]), frame_of (Embedding [0, 1])])
        (pos (cam_of [frame_of (Embedding [1, 0]), frame_of (Embedding [0, 1])])
         + length [frame_of (Embedding [1, 0]), frame_of (Embedding [0, 1])]) = None"
  "rectangular [[1, 0], [0, 1]]"
  "cropped_dirs registering_state ''bob'' = None \<or> cropped_dirs registering_state ''bob'' = Some []"
  "[frame_of (Embedding [1, 0]), frame_of (Embedding [0, 1])] \<noteq> []"
  by (simp_all add: cam_of_def frame_of_def default_config_def rectangular_def
        registering_state_def)

lemma two_frames_delivers:
  "delivers (cam_of [frame_of (Embedding [1, 0]), frame_of (Embedding [0, 1])])
     [frame_of (Embedding [1, 0]), frame_of (Embedding [0, 1])]"
  by (rule cam_of_delivers)

lemma ascii_lower_jpg: "ascii_lower ''.jpg'' = ''.jpg''"
  by code_simp

lemma registration_two_frames:
  "stored_vectors
     (snd (process_registration exact_numerics ascii_lower default_config ''bob''
             (cam_of [frame_of (Embedding [1, 0]), frame_of (Embedding [0, 1])])
             registering_state)) ''bob''
   = Some [Some [1 / 2, 1 / 2]]"
proof -
  note run = registration_run [where lower = ascii_lower and np = exact_numerics,
          OF two_frames_reads(1) two_frames_delivers two_frames_reads(2,7)
          two_frames_reads(3,4,5,6) ascii_lower_jpg refl]
  from run show ?thesis
    unfolding two_frames_sorted two_frames_mean by (rule conjunct1 [OF conjunct2])
qed

subsection \<open>Saving an empty list\<close>

text \<open>
  Claim C7. For every name, \<^verbatim>\<open>save_user_embeddings\<close> called with an empty list of
  vectors returns 0 (no vector saved) and leaves the whole state as it was: an entry
  stored earlier under that name is neither deleted nor changed.
\<close>

theorem save_empty_is_noop:
  "save_user_embeddings user_name [] st = (0, st)"
  by (simp add: save_user_embeddings_def)

subsection \<open>The frame of a save\<close>

text \<open>
  Claim C10. For every name and every non-empty list of vectors,
  \<^verbatim>\<open>save_user_embeddings\<close> returns the number of vectors and replaces the entry of
  that name only: the vectors stored under every other name are the ones stored
  before, and the user registry, the access log, the image folders and the
  registration statuses are not modified.
\<close>

theorem save_replaces_one_entry:
  assumes "embeddings \<noteq> []" and "other \<noteq> user_name"
  shows "fst (save_user_embeddings user_name embeddings st) = length embeddings
       \<and> stored_vectors (snd (save_user_embeddings user_name embeddings st)) user_name
           = Some embeddings
       \<and> stored_vectors (snd (save_user_embeddings user_name embeddings st)) other
           = stored_vectors st other
       \<and> users_file (snd (save_user_embeddings user_name embeddings st)) = users_file st
       \<and> log_file (snd (save_user_embeddings user_name embeddings st)) = log_file st
       \<and> cropped_dirs (snd (save_user_embeddings user_name embeddings st)) = cropped_dirs st
       \<and> registration_status (snd (save_user_embeddings user_name embeddings st))
           = registration_status st"
  using assms
  by (simp add: save_user_embeddings_def stored_vectors_def Let_def update_conv'
           split: json_file.splits)

theorem save_replaces_one_entry_witness:
  "[Some [1 / 2, 1 / 2]] \<noteq> ([] :: stored_vec list) \<and> ''ann'' \<noteq> ''bob''
   \<and> stored_vectors (snd (save_user_embeddings ''bob'' [Some [1 / 2, 1 / 2]] enrolled_state))
        ''bob'' = Some [Some [1 / 2, 1 / 2]]
   \<and> stored_vectors (snd (save_user_embeddings ''bob'' [Some [1 / 2, 1 / 2]] enrolled_state))
        ''ann'' = Some [Some [0, 1]]
   \<and> users_file (snd (save_user_embeddings ''bob'' [Some [1 / 2, 1 / 2]] enrolled_state))
       = Json [(''1a2b3c4d'', ''ann''), (''5e6f7a8b'', ''bob'')]"
  using save_replaces_one_entry [of "[Some [1 / 2, 1 / 2]]" "''ann''" "''bob''" enrolled_state]
  by (simp add: stored_vectors_def enrolled_state_def)

subsection \<open>Verification with nobody enrolled\<close>

text \<open>
  Claim C9. When \<^verbatim>\<open>embeddings.json\<close> is absent, unreadable or holds no entry,
  \<^verbatim>\<open>verify_face_live\<close> raises (\<^verbatim>\<open>FileNotFoundError\<close>,
  \<^verbatim>\<open>JSONDecodeError\<close>, respectively \<^verbatim>\<open>RuntimeError\<close>) instead of returning a
  decision, before the webcam is opened, and leaves the state, the access log
  included, as it was: no decision at all is appended by the attempt.
\<close>

theorem verify_without_centroids_raises:
  assumes "embed_file st = NoFile \<or> (\<exists>msg. embed_file st = BadJson msg) \<or> embed_file st = Json []"
  shows "\<exists>e. verify_face_live np threshold show_window now cam st = Some (Inl e, cam, st)
           \<and> (e = FileNotFoundError ''No embeddings.json found. Please register users first.''
              \<or> (\<exists>msg. e = JSONDecodeError msg)
              \<or> e = RuntimeError ''embeddings.json is empty. Register users first.'')"
  using assms by (auto simp add: verify_face_live_def load_db_def)

theorem verify_without_centroids_raises_witness:
  "embed_file fresh_state = Json []
   \<and> verify_face_live exact_numerics (1 / 2) False sample_now (cam_of []) fresh_state
       = Some (Inl (RuntimeError ''embeddings.json is empty. Register users first.''),
               cam_of [], fresh_state)
   \<and> log_file fresh_state = Json []"
  using verify_without_centroids_raises
          [of fresh_state exact_numerics "1 / 2" False sample_now "cam_of []"]
  by (simp add: fresh_state_def verify_face_live_def load_db_def)

subsection \<open>Duplicate names\<close>

text \<open>
  Claim C6. When \<^verbatim>\<open>users.json\<close> holds a record whose name equals the requested
  name after \<^verbatim>\<open>str.lower\<close> of both, \<^verbatim>\<open>add_user_record\<close> raises
  \<^verbatim>\<open>ValueError\<close> and \<^verbatim>\<open>register_user\<close> answers 400 at once: no thread is started
  and the state is unchanged, so the request creates no entry in
  \<^verbatim>\<open>registration_status\<close>. (An empty name is refused one step earlier, with the
  message of a missing field.) The statement holds whatever function \<open>lower\<close> is.
\<close>

theorem register_duplicate_rejected:
  assumes "users_file st = Json users"
      and "(uid, existing) \<in> set users"
      and "lower existing = lower user_name"
  shows "add_user_record lower user_name user_id st
           = (Inl (ValueError (''User '' @ [CHR 0x27] @ user_name @ [CHR 0x27]
                               @ '' already exists.'')), st)
       \<and> register_user lower (Some user_name) user_id st
           = ((400, [(''error'',
                      if user_name = []
                      then ''Missing '' @ [CHR 0x27] @ ''name'' @ [CHR 0x27] @ '' field''
                      else ''User '' @ [CHR 0x27] @ user_name @ [CHR 0x27]
                             @ '' already exists.'')]),
              st, None)"
proof -
  have "list_ex (\<lambda>info. lower (snd info) = lower user_name) users"
    unfolding list_ex_iff using assms(2,3) by force
  then have "add_user_record lower user_name user_id st
      = (Inl (ValueError (''User '' @ [CHR 0x27] @ user_name @ [CHR 0x27]
                          @ '' already exists.'')), st)"
    using assms(1) by (simp add: add_user_record_def list_users_def)
  then show ?thesis
    by (simp add: register_user_def str_error_def)
qed

theorem register_duplicate_rejected_witness:
  "users_file enrolled_state = Json [(''1a2b3c4d'', ''ann''), (''5e6f7a8b'', ''bob'')]
   \<and> ascii_lower ''ann'' = ascii_lower ''ANN''
   \<and> register_user ascii_lower (Some ''ANN'') ''0c0d0e0f'' enrolled_state
       = ((400, [(''error'',
                  ''User '' @ [CHR 0x27] @ ''ANN'' @ [CHR 0x27] @ '' already exists.'')]),
          enrolled_state, None)
   \<and> registration_status enrolled_state ''ANN'' = None"
proof -
  have u: "users_file enrolled_state = Json [(''1a2b3c4d'', ''ann''), (''5e6f7a8b'', ''bob'')]"
    by (simp add: enrolled_state_def)
  have m: "(''1a2b3c4d'', ''ann'') \<in> set [(''1a2b3c4d'', ''ann''), (''5e6f7a8b'', ''bob'')]"
    by simp
  have l: "ascii_lower ''ann'' = ascii_lower ''ANN''"
    by code_simp
  have r: "registration_status enrolled_state ''ANN'' = None"
    by (simp add: enrolled_state_def)
  from register_duplicate_rejected [OF u m l, of "''0c0d0e0f''"] u l r
  show ?thesis
    by simp
qed

subsection \<open>The threshold rule\<close>

text \<open>
  Claim C1, as the code has it. Take a database that loads (at least one centroid), a
  webcam that opens, and a run of \<^verbatim>\<open>verify_face_live\<close> whose last frame read
  yields an embedding that is scored: the loop reads the frames before it without
  leaving, and after it the loop leaves or the next read fails. Then the run returns
  a decision and appends it to the access log. Let the best candidate be the row
  \<^verbatim>\<open>np.argmax\<close> selects among the cosine similarities with the probe: no row has a
  greater one. The decision is \<^verbatim>\<open>granted\<close> with the name of the best candidate
  exactly when its cosine similarity is strictly greater than the threshold; otherwise
  (equality included) it is \<^verbatim>\<open>denied\<close> with the name \<^verbatim>\<open>Unknown\<close>. In both cases
  the confidence reported is the cosine score of the best candidate, written with four
  decimals. The default threshold is 0.50.
\<close>

theorem verify_decision_rule:
  assumes db: "load_db np st = Inr (names, db_embeds)"
    and opened: "is_opened cam"
    and reads: "delivers cam (frames @ [fr])"
    and before: "prefix_run np threshold show_window names db_embeds frames
                   \<lparr>decision = initial_decision now, max_idx = None\<rparr> = Some s0"
    and probe: "probe_of np db_embeds fr = Some emb"
    and metrics: "compute_metrics np emb db_embeds = m"
    and stop: "(show_window \<and> key_q fr) \<or> 0 < cos_score m
       \<or> (threshold < cos_score m
          \<and> sublist ''Unknown''
               (names ! best m @ '' ('' @ format_f 1 (fmul np (cos_score m) 100) @ ''%)''))
       \<or> feed cam (pos cam + length frames + 1) = None"
  shows "verify_face_live np threshold show_window now cam st
           = Some (Inr \<lparr>status = (if threshold < cos_score m then ''granted'' else ''denied''),
                        name = (if threshold < cos_score m then Some (names ! best m)
                                else Some ''Unknown''),
                        confidence = format_f 4 (cos_score m),
                        scores = [(''cosine'', py_round np (cos_score m) 4),
                                  (''euclidean'', py_round np (euclid_score m) 4),
                                  (''manhattan'', py_round np (manhattan_score m) 4)],
                        time = now\<rparr>,
                   cam\<lparr>pos := pos cam + length frames + 1\<rparr>,
                   append_log
                     \<lparr>status = (if threshold < cos_score m then ''granted'' else ''denied''),
                      name = (if threshold < cos_score m then Some (names ! best m)
                              else Some ''Unknown''),
                      confidence = format_f 4 (cos_score m),
                      scores = [(''cosine'', py_round np (cos_score m) 4),
                                (''euclidean'', py_round np (euclid_score m) 4),
                                (''manhattan'', py_round np (manhattan_score m) 4)],
                      time = now\<rparr> st)
       \<and> best m < length names
       \<and> cos_score m = cosine_similarity np emb (db_embeds ! best m)
       \<and> (\<forall>j<length db_embeds. cosine_similarity np emb (db_embeds ! j) \<le> cos_score m)
       \<and> SIMILARITY_THRESHOLD default_config = 1 / 2"
proof -
  let ?sims = "map (cosine_similarity np emb) db_embeds"
  from load_db_shape [OF db] have ne: "db_embeds \<noteq> []" and len: "length names = length db_embeds"
    by auto
  from metrics have b: "best m = argmax ?sims" and c: "cos_score m = ?sims ! argmax ?sims"
    by (auto simp add: compute_metrics_fields)
  from ne have less: "argmax ?sims < length db_embeds"
    using argmax_less [of ?sims] by simp
  have bound: "best m < length names"
    using less b len by simp
  have score: "cos_score m = cosine_similarity np emb (db_embeds ! best m)"
    using less b c by simp
  have greatest: "\<forall>j<length db_embeds. cosine_similarity np emb (db_embeds ! j) \<le> cos_score m"
  proof (intro allI impI)
    fix j assume "j < length db_embeds"
    then show "cosine_similarity np emb (db_embeds ! j) \<le> cos_score m"
      using argmax_greatest [of j ?sims] c by simp
  qed
  have default: "SIMILARITY_THRESHOLD default_config = 1 / 2"
    by (simp add: default_config_def)
  note run = verify_run_last_probe [OF db opened reads before probe metrics stop]
  show ?thesis
    by (intro conjI) (fact run bound score greatest default)+
qed

theorem verify_decision_rule_witness:
  "load_db exact_numerics enrolled_state = Inr ([''ann'', ''bob''], [[0, 1], [1, 0]])
   \<and> delivers (cam_of [frame_of Raises, frame_of (Embedding [2, 0])])
        ([frame_of Raises] @ [frame_of (Embedding [2, 0])])
   \<and> probe_of exact_numerics [[0, 1], [1, 0]] (frame_of (Embedding [2, 0])) = Some [1, 0]
   \<and> cos_score (compute_metrics exact_numerics [1, 0] [[0, 1], [1, 0]]) = 1
   \<and> access exact_numerics default_config sample_now
        (cam_of [frame_of Raises, frame_of (Embedding [2, 0])]) enrolled_state
       = Some (Inr \<lparr>status = ''granted'', name = Some ''bob'', confidence = ''1.0000'',
                    scores = [(''cosine'', 1), (''euclidean'', 1), (''manhattan'', 1)],
                    time = sample_now\<rparr>,
               (cam_of [frame_of Raises, frame_of (Embedding [2, 0])])\<lparr>pos := 2\<rparr>,
               append_log
                 \<lparr>status = ''granted'', name = Some ''bob'', confidence = ''1.0000'',
                  scores = [(''cosine'', 1), (''euclidean'', 1), (''manhattan'', 1)],
                  time = sample_now\<rparr> enrolled_state)"
proof -
  let ?cam = "cam_of [frame_of Raises, frame_of (Embedding [2, 0])]"
  let ?m = "\<lparr>sims = [0, 1], best = 1, cos_score = 1, euclid_score = 1, manhattan_score = 1\<rparr>"
  have opened: "is_opened ?cam"
    by (simp add: cam_of_def)
  have reads: "delivers ?cam ([frame_of Raises] @ [frame_of (Embedding [2, 0])])"
    using cam_of_delivers [of "[frame_of Raises, frame_of (Embedding [2, 0])]"] by simp
  have before: "prefix_run exact_numerics (1 / 2) False [''ann'', ''bob''] [[0, 1], [1, 0]]
      [frame_of Raises] \<lparr>decision = initial_decision sample_now, max_idx = None\<rparr>
      = Some \<lparr>decision = initial_decision sample_now, max_idx = None\<rparr>"
    by (simp add: loop_body_def frame_of_def no_unknown_in_labels)
  have stop: "(False \<and> key_q (frame_of (Embedding [2, 0]))) \<or> 0 < cos_score ?m
       \<or> (1 / 2 < cos_score ?m
          \<and> sublist ''Unknown''
               ([''ann'', ''bob''] ! best ?m @ '' (''
                  @ format_f 1 (fmul exact_numerics (cos_score ?m) 100) @ ''%)''))
       \<or> feed ?cam (pos ?cam + length [frame_of Raises] + 1) = None"
    by simp
  from verify_decision_rule [OF load_db_enrolled opened reads before probe_samples(1)
      compute_metrics_sample stop]
  have "verify_face_live exact_numerics (1 / 2) False sample_now ?cam enrolled_state
       = Some (Inr \<lparr>status = ''granted'', name = Some ''bob'', confidence = ''1.0000'',
                    scores = [(''cosine'', 1), (''euclidean'', 1), (''manhattan'', 1)],
                    time = sample_now\<rparr>,
               ?cam\<lparr>pos := 2\<rparr>,
               append_log
                 \<lparr>status = ''granted'', name = Some ''bob'', confidence = ''1.0000'',
                  scores = [(''cosine'', 1), (''euclidean'', 1), (''manhattan'', 1)],
                  time = sample_now\<rparr> enrolled_state)"
    by (simp add: format_f_4_one exact_numerics_fields decimal_round_samples cam_of_def)
  then show ?thesis
    using reads
    by (simp add: access_def default_config_def load_db_enrolled probe_samples
          compute_metrics_sample)
qed

text \<open>
  The claim as first stated covers every run in which an embedding is extracted. With
  one user enrolled, let the first frame yield an embedding opposite to the centroid
  (cosine similarity \<open>- 1\<close>) and the second frame yield none. The first frame is
  denied with a confidence that is not positive, so the loop reads on; the second
  frame sets the confidence to 0 and leaves the scores of the first in place. At the
  threshold 0.50 the run returns the confidence \<^verbatim>\<open>0.0000\<close>, not the cosine score
  \<^verbatim>\<open>-1.0000\<close>; at the threshold \<open>- 0.5\<close> it returns \<^verbatim>\<open>granted\<close> for a cosine
  similarity below the threshold.
\<close>

theorem verify_decision_rule_counterexample:
  "load_db exact_numerics ann_state = Inr ([''ann''], [[0, 1]])
   \<and> probe_of exact_numerics [[0, 1]] (frame_of (Embedding [0, - 1])) = Some [0, - 1]
   \<and> cos_score (compute_metrics exact_numerics [0, - 1] [[0, 1]]) = - 1
   \<and> format_f 4 (- 1) = ''-1.0000''
   \<and> map_option fst
        (verify_face_live exact_numerics (1 / 2) False sample_now
           (cam_of [frame_of (Embedding [0, - 1]), frame_of NoEmbedding]) ann_state)
       = Some (Inr \<lparr>status = ''denied'', name = Some ''Unknown'', confidence = ''0.0000'',
                    scores = [(''cosine'', - 1), (''euclidean'', 3333 / 10000),
                              (''manhattan'', 3333 / 10000)],
                    time = sample_now\<rparr>)
   \<and> map_option fst
        (verify_face_live exact_numerics (- 1 / 2) False sample_now
           (cam_of [frame_of (Embedding [0, - 1]), frame_of NoEmbedding]) ann_state)
       = Some (Inr \<lparr>status = ''granted'', name = Some ''ann'', confidence = ''0.0000'',
                    scores = [(''cosine'', - 1), (''euclidean'', 3333 / 10000),
                              (''manhattan'', 3333 / 10000)],
                    time = sample_now\<rparr>)"
  by (intro conjI)
     (fact load_db_ann probe_samples run_opposite_then_none
        run_opposite_then_none_negative_threshold format_f_4_minus_one
      | simp add: compute_metrics_opposite)+

subsection \<open>The scores of a decision\<close>

text \<open>
  Claim C5, as the code has it. For a run as in claim C1 (its last frame read yields
  an embedding that is scored), the cosine similarity is computed for every row of the
  database; the Euclidean and the Manhattan score, \<^verbatim>\<open>1 / (1 + distance)\<close> in float
  arithmetic, are computed for the row of greatest cosine similarity only; the run
  returns a decision that reports these three scores of the best candidate, rounded
  to four decimals, and whose status and name depend on the cosine score and the
  threshold alone.
\<close>

theorem scores_of_best_candidate:
  assumes db: "load_db np st = Inr (names, db_embeds)"
    and opened: "is_opened cam"
    and reads: "delivers cam (frames @ [fr])"
    and before: "prefix_run np threshold show_window names db_embeds frames
                   \<lparr>decision = initial_decision now, max_idx = None\<rparr> = Some s0"
    and probe: "probe_of np db_embeds fr = Some emb"
    and metrics: "compute_metrics np emb db_embeds = m"
    and stop: "(show_window \<and> key_q fr) \<or> 0 < cos_score m
       \<or> (threshold < cos_score m
          \<and> sublist ''Unknown''
               (names ! best m @ '' ('' @ format_f 1 (fmul np (cos_score m) 100) @ ''%)''))
       \<or> feed cam (pos cam + length frames + 1) = None"
  shows "sims m = map (cosine_similarity np emb) db_embeds
       \<and> best m = argmax (sims m)
       \<and> cos_score m = sims m ! best m
       \<and> euclid_score m = fdiv np 1 (fadd np 1 (euclidean np emb (db_embeds ! best m)))
       \<and> manhattan_score m = fdiv np 1 (fadd np 1 (cityblock np emb (db_embeds ! best m)))
       \<and> (\<exists>d. verify_face_live np threshold show_window now cam st
                 = Some (Inr d, cam\<lparr>pos := pos cam + length frames + 1\<rparr>, append_log d st)
              \<and> scores d = [(''cosine'', py_round np (cos_score m) 4),
                             (''euclidean'', py_round np (euclid_score m) 4),
                             (''manhattan'', py_round np (manhattan_score m) 4)]
              \<and> status d = (if threshold < cos_score m then ''granted'' else ''denied'')
              \<and> name d = (if threshold < cos_score m then Some (names ! best m)
                           else Some ''Unknown''))"
proof -
  from metrics have fields: "sims m = map (cosine_similarity np emb) db_embeds"
    "best m = argmax (sims m)" "cos_score m = sims m ! best m"
    "euclid_score m = fdiv np 1 (fadd np 1 (euclidean np emb (db_embeds ! best m)))"
    "manhattan_score m = fdiv np 1 (fadd np 1 (cityblock np emb (db_embeds ! best m)))"
    by (auto simp add: compute_metrics_fields)
  note run = verify_run_last_probe [OF db opened reads before probe metrics stop]
  have "\<exists>d. verify_face_live np threshold show_window now cam st
                 = Some (Inr d, cam\<lparr>pos := pos cam + length frames + 1\<rparr>, append_log d st)
              \<and> scores d = [(''cosine'', py_round np (cos_score m) 4),
                             (''euclidean'', py_round np (euclid_score m) 4),
                             (''manhattan'', py_round np (manhattan_score m) 4)]
              \<and> status d = (if threshold < cos_score m then ''granted'' else ''denied'')
              \<and> name d = (if threshold < cos_score m then Some (names ! best m)
                           else Some ''Unknown'')"
    by (rule exI, rule conjI, rule run) simp
  with fields show ?thesis
    by (intro conjI)
qed

theorem scores_of_best_candidate_witness:
  "load_db exact_numerics ann_state = Inr ([''ann''], [[0, 1]])
   \<and> delivers (cam_of [frame_of (Embedding [0, - 1])]) ([] @ [frame_of (Embedding [0, - 1])])
   \<and> probe_of exact_numerics [[0, 1]] (frame_of (Embedding [0, - 1])) = Some [0, - 1]
   \<and> compute_metrics exact_numerics [0, - 1] [[0, 1]]
       = \<lparr>sims = [- 1], best = 0, cos_score = - 1, euclid_score = 1 / 3,
          manhattan_score = 1 / 3\<rparr>
   \<and> (\<exists>d. verify_face_live exact_numerics (1 / 2) False sample_now
              (cam_of [frame_of (Embedding [0, - 1])]) ann_state
            = Some (Inr d, (cam_of [frame_of (Embedding [0, - 1])])\<lparr>pos := 1\<rparr>,
                    append_log d ann_state)
          \<and> scores d = [(''cosine'', - 1), (''euclidean'', 3333 / 10000),
                         (''manhattan'', 3333 / 10000)]
          \<and> status d = ''denied'' \<and> name d = Some ''Unknown'')"
proof -
  let ?cam = "cam_of [frame_of (Embedding [0, - 1])]"
  let ?m = "\<lparr>sims = [- 1], best = 0, cos_score = - 1, euclid_score = 1 / 3,
             manhattan_score = 1 / 3\<rparr>"
  have opened: "is_opened ?cam"
    by (simp add: cam_of_def)
  have reads: "delivers ?cam ([] @ [frame_of (Embedding [0, - 1])])"
    using cam_of_delivers [of "[frame_of (Embedding [0, - 1])]"] by simp
  have before: "prefix_run exact_numerics (1 / 2) False [''ann''] [[0, 1]] []
      \<lparr>decision = initial_decision sample_now, max_idx = None\<rparr>
      = Some \<lparr>decision = initial_decision sample_now, max_idx = None\<rparr>"
    by simp
  have stop: "(False \<and> key_q (frame_of (Embedding [0, - 1]))) \<or> 0 < cos_score ?m
       \<or> (1 / 2 < cos_score ?m
          \<and> sublist ''Unknown''
               ([''ann''] ! best ?m @ '' (''
                  @ format_f 1 (fmul exact_numerics (cos_score ?m) 100) @ ''%)''))
       \<or> feed ?cam (pos ?cam + length ([] :: frame list) + 1) = None"
    by (simp add: cam_of_def)
  from scores_of_best_candidate [OF load_db_ann opened reads before probe_samples(2)
      compute_metrics_opposite stop]
  have "\<exists>d. verify_face_live exact_numerics (1 / 2) False sample_now ?cam ann_state
            = Some (Inr d, ?cam\<lparr>pos := 1\<rparr>, append_log d ann_state)
          \<and> scores d = [(''cosine'', - 1), (''euclidean'', 3333 / 10000),
                         (''manhattan'', 3333 / 10000)]
          \<and> status d = ''denied'' \<and> name d = Some ''Unknown''"
    by (simp add: exact_numerics_fields decimal_round_samples cam_of_def)
  with reads show ?thesis
    by (simp add: load_db_ann probe_samples compute_metrics_opposite)
qed

text \<open>
  The claim as first stated asks for the three scores of every enrolled centroid. With
  two users enrolled and a probe equal to the centroid of the second, the cosine
  similarities are 0 and 1 and there is a single Euclidean and a single Manhattan
  score, both 1, those of the second centroid: the Euclidean and Manhattan scores of
  the first centroid are none of the values computed. It also covers runs whose last
  frame has no embedding: in the run of the previous section at the threshold
  \<open>- 0.5\<close>, the access is granted on the confidence 0 of the second frame although
  the cosine score is \<open>- 1\<close>.
\<close>

theorem scores_of_best_candidate_counterexample:
  "load_db exact_numerics enrolled_state = Inr ([''ann'', ''bob''], [[0, 1], [1, 0]])
   \<and> probe_of exact_numerics [[0, 1], [1, 0]] (frame_of (Embedding [2, 0])) = Some [1, 0]
   \<and> compute_metrics exact_numerics [1, 0] [[0, 1], [1, 0]]
       = \<lparr>sims = [0, 1], best = 1, cos_score = 1, euclid_score = 1, manhattan_score = 1\<rparr>
   \<and> fdiv exact_numerics 1 (fadd exact_numerics 1
         (euclidean exact_numerics [1, 0] ([[0, 1], [1, 0]] ! 0))) \<notin> {0, 1}
   \<and> fdiv exact_numerics 1 (fadd exact_numerics 1
         (cityblock exact_numerics [1, 0] ([[0, 1], [1, 0]] ! 0))) \<notin> {0, 1}
   \<and> probe_of exact_numerics [[0, 1]] (frame_of (Embedding [0, - 1])) = Some [0, - 1]
   \<and> cos_score (compute_metrics exact_numerics [0, - 1] [[0, 1]]) = - 1
   \<and> map_option fst
        (verify_face_live exact_numerics (- 1 / 2) False sample_now
           (cam_of [frame_of (Embedding [0, - 1]), frame_of NoEmbedding]) ann_state)
       = Some (Inr \<lparr>status = ''granted'', name = Some ''ann'', confidence = ''0.0000'',
                    scores = [(''cosine'', - 1), (''euclidean'', 3333 / 10000),
                              (''manhattan'', 3333 / 10000)],
                    time = sample_now\<rparr>)"
proof -
  have "0 \<le> sqrt 2"
    by simp
  then have "1 + sqrt 2 \<noteq> 0"
    by linarith
  then have a: "fdiv exact_numerics 1 (fadd exact_numerics 1
         (euclidean exact_numerics [1, 0] ([[0, 1], [1, 0]] ! 0))) \<notin> {0, 1}"
    by (simp add: exact_numerics_fields exact_euclidean_def)
  have b: "fdiv exact_numerics 1 (fadd exact_numerics 1
         (cityblock exact_numerics [1, 0] ([[0, 1], [1, 0]] ! 0))) \<notin> {0, 1}"
    by (simp add: exact_numerics_fields exact_cityblock_def)
  have c: "cos_score (compute_metrics exact_numerics [0, - 1] [[0, 1]]) = - 1"
    by (simp add: compute_metrics_opposite)
  show ?thesis
    by (intro conjI)
       (fact load_db_enrolled probe_samples compute_metrics_sample a b c
          run_opposite_then_none_negative_threshold)+
qed

subsection \<open>Frames without a usable embedding\<close>

text \<open>
  Claim C3, as the code has it. Take a database that loads, a webcam that opens, and a
  run of \<^verbatim>\<open>verify_face_live\<close> in which no frame read yields an embedding that is
  scored, and which ends because a read fails or \<^verbatim>\<open>q\<close> is pressed in the window.
  The run returns a decision with status \<^verbatim>\<open>denied\<close> and no scores. If the threshold
  is not negative and some frame gave a result without embedding, its name is
  \<^verbatim>\<open>Unknown\<close> and its confidence \<^verbatim>\<open>0.0000\<close>; otherwise (every frame raised, or the
  threshold is negative) it is the initial dictionary, with name \<^verbatim>\<open>None\<close> and
  confidence \<^verbatim>\<open>0.00\<close>. The dictionary has its five keys and no other. It is appended
  to the access log when the log file is absent or holds a list; an unreadable log
  file is left as it is.
\<close>

theorem probe_failure_decision:
  assumes db: "load_db np st = Inr (names, db_embeds)"
    and opened: "is_opened cam"
    and reads: "delivers cam frames"
    and fail: "list_all (\<lambda>fr. probe_of np db_embeds fr = None) frames"
    and stay: "list_all (\<lambda>fr. \<not> (show_window \<and> key_q fr)) (butlast frames)"
    and stop: "feed cam (pos cam + length frames) = None
       \<or> (frames \<noteq> [] \<and> show_window \<and> key_q (last frames))"
  shows "\<exists>d. verify_face_live np threshold show_window now cam st
               = Some (Inr d, cam\<lparr>pos := pos cam + length frames\<rparr>, append_log d st)
           \<and> d = \<lparr>status = ''denied'',
                   name = (if 0 \<le> threshold \<and> list_ex (\<lambda>fr. rep fr = NoEmbedding) frames
                           then Some ''Unknown'' else None),
                   confidence = (if 0 \<le> threshold \<and> list_ex (\<lambda>fr. rep fr = NoEmbedding) frames
                                 then ''0.0000'' else ''0.00''),
                   scores = [], time = now\<rparr>
           \<and> log_file (append_log d st)
               = (case log_file st of
                    NoFile \<Rightarrow> Json [d]
                  | BadJson msg \<Rightarrow> BadJson msg
                  | Json entries \<Rightarrow> Json (entries @ [d]))"
proof -
  let ?init = "\<lparr>decision = initial_decision now, max_idx = None\<rparr>"
  let ?s = "if 0 \<le> threshold \<and> list_ex (\<lambda>fr. rep fr = NoEmbedding) frames
            then ?init\<lparr>decision := (decision ?init)\<lparr>status := ''denied'', name := Some ''Unknown'',
                                                  confidence := ''0.0000''\<rparr>\<rparr>
            else ?init"
  have "verify_loop np threshold show_window names db_embeds cam ?init
      = Some (cam\<lparr>pos := pos cam + length frames\<rparr>, ?s)"
    by (rule verify_loop_no_probe [OF reads fail stay stop]) simp
  from verify_face_live_loop [OF db opened this]
  have run: "verify_face_live np threshold show_window now cam st
      = Some (Inr (decision ?s), cam\<lparr>pos := pos cam + length frames\<rparr>,
              append_log (decision ?s) st)" .
  have d: "decision ?s = \<lparr>status = ''denied'',
                   name = (if 0 \<le> threshold \<and> list_ex (\<lambda>fr. rep fr = NoEmbedding) frames
                           then Some ''Unknown'' else None),
                   confidence = (if 0 \<le> threshold \<and> list_ex (\<lambda>fr. rep fr = NoEmbedding) frames
                                 then ''0.0000'' else ''0.00''),
                   scores = [], time = now\<rparr>"
    by (simp add: initial_decision_def)
  have l: "log_file (append_log (decision ?s) st)
               = (case log_file st of
                    NoFile \<Rightarrow> Json [decision ?s]
                  | BadJson msg \<Rightarrow> BadJson msg
                  | Json entries \<Rightarrow> Json (entries @ [decision ?s]))"
    by (simp add: append_log_def split: json_file.splits)
  from run d l show ?thesis
    by blast
qed

theorem probe_failure_decision_witness:
  "load_db exact_numerics enrolled_state = Inr ([''ann'', ''bob''], [[0, 1], [1, 0]])
   \<and> delivers (cam_of [frame_of Raises, frame_of NoEmbedding])
        [frame_of Raises, frame_of NoEmbedding]
   \<and> probe_of exact_numerics [[0, 1], [1, 0]] (frame_of Raises) = None
   \<and> probe_of exact_numerics [[0, 1], [1, 0]] (frame_of NoEmbedding) = None
   \<and> verify_face_live exact_numerics (1 / 2) False sample_now
        (cam_of [frame_of Raises, frame_of NoEmbedding]) enrolled_state
       = Some (Inr \<lparr>status = ''denied'', name = Some ''Unknown'', confidence = ''0.0000'',
                    scores = [], time = sample_now\<rparr>,
               (cam_of [frame_of Raises, frame_of NoEmbedding])\<lparr>pos := 2\<rparr>,
               append_log \<lparr>status = ''denied'', name = Some ''Unknown'',
                           confidence = ''0.0000'', scores = [], time = sample_now\<rparr>
                 enrolled_state)
   \<and> log_file (append_log \<lparr>status = ''denied'', name = Some ''Unknown'',
                            confidence = ''0.0000'', scores = [], time = sample_now\<rparr>
                  enrolled_state)
       = Json [\<lparr>status = ''denied'', name = Some ''Unknown'', confidence = ''0.0000'',
                scores = [], time = sample_now\<rparr>]"
proof -
  let ?frames = "[frame_of Raises, frame_of NoEmbedding]"
  have opened: "is_opened (cam_of ?frames)"
    by (simp add: cam_of_def)
  have fail: "list_all (\<lambda>fr. probe_of exact_numerics [[0, 1], [1, 0]] fr = None) ?frames"
    by (simp add: probe_samples)
  have stay: "list_all (\<lambda>fr. \<not> (False \<and> key_q fr)) (butlast ?frames)"
    by simp
  have stop: "feed (cam_of ?frames) (pos (cam_of ?frames) + length ?frames) = None
       \<or> (?frames \<noteq> [] \<and> False \<and> key_q (last ?frames))"
    by (simp add: cam_of_def)
  have logged: "log_file enrolled_state = Json []"
    by (simp add: enrolled_state_def)
  from probe_failure_decision [OF load_db_enrolled opened cam_of_delivers fail stay stop,
      of "1 / 2" sample_now]
  have "verify_face_live exact_numerics (1 / 2) False sample_now (cam_of ?frames) enrolled_state
       = Some (Inr \<lparr>status = ''denied'', name = Some ''Unknown'', confidence = ''0.0000'',
                    scores = [], time = sample_now\<rparr>,
               (cam_of ?frames)\<lparr>pos := 2\<rparr>,
               append_log \<lparr>status = ''denied'', name = Some ''Unknown'',
                           confidence = ''0.0000'', scores = [], time = sample_now\<rparr>
                 enrolled_state)
     \<and> log_file (append_log \<lparr>status = ''denied'', name = Some ''Unknown'',
                            confidence = ''0.0000'', scores = [], time = sample_now\<rparr>
                  enrolled_state)
       = Json [\<lparr>status = ''denied'', name = Some ''Unknown'', confidence = ''0.0000'',
                scores = [], time = sample_now\<rparr>]"
    by (simp add: frame_of_def cam_of_def logged)
  then show ?thesis
    using cam_of_delivers [of ?frames]
    by (simp add: load_db_enrolled probe_samples)
qed

text \<open>
  The claim as first stated asks for an explicit marker that tells such a decision
  from a denial by a low score. With one user enrolled and a threshold of 0.50, a probe
  orthogonal to the centroid is denied with confidence \<^verbatim>\<open>0.0000\<close>. A run in which
  that frame is followed by a frame without an embedding returns the very same
  dictionary; a run whose only frame has no embedding returns it with the scores
  left empty. No key marks the failure.
\<close>

theorem probe_failure_decision_counterexample:
  "probe_of exact_numerics [[0, 1]] (frame_of (Embedding [1, 0])) = Some [1, 0]
   \<and> probe_of exact_numerics [[0, 1]] (frame_of NoEmbedding) = None
   \<and> map_option fst
        (verify_face_live exact_numerics (1 / 2) False sample_now
           (cam_of [frame_of (Embedding [1, 0])]) ann_state)
       = Some (Inr \<lparr>status = ''denied'', name = Some ''Unknown'', confidence = ''0.0000'',
                    scores = [(''cosine'', 0),
                              (''euclidean'', decimal_round (1 / (1 + sqrt 2)) 4),
                              (''manhattan'', 3333 / 10000)],
                    time = sample_now\<rparr>)
   \<and> map_option fst
        (verify_face_live exact_numerics (1 / 2) False sample_now
           (cam_of [frame_of (Embedding [1, 0]), frame_of NoEmbedding]) ann_state)
       = Some (Inr \<lparr>status = ''denied'', name = Some ''Unknown'', confidence = ''0.0000'',
                    scores = [(''cosine'', 0),
                              (''euclidean'', decimal_round (1 / (1 + sqrt 2)) 4),
                              (''manhattan'', 3333 / 10000)],
                    time = sample_now\<rparr>)
   \<and> map_option fst
        (verify_face_live exact_numerics (1 / 2) False sample_now
           (cam_of [frame_of NoEmbedding]) ann_state)
       = Some (Inr \<lparr>status = ''denied'', name = Some ''Unknown'', confidence = ''0.0000'',
                    scores = [], time = sample_now\<rparr>)"
  by (intro conjI) (fact probe_samples run_orthogonal run_orthogonal_then_none run_none)+

subsection \<open>A registration that yields no embedding\<close>

text \<open>
  Claim C2 asks that a registration job is set to \<^verbatim>\<open>completed\<close> only when
  \<^verbatim>\<open>embeddings.json\<close> holds a non-empty entry for the name, and to \<^verbatim>\<open>failed\<close> when
  no sample is captured or when no usable vector is produced. The code does the second
  for a capture of zero frames only. Take the registration of \<^verbatim>\<open>bob\<close> with a webcam
  that delivers one frame, on whose image \<^verbatim>\<open>DeepFace.represent\<close> raises:
  \<^verbatim>\<open>compute_embeddings_for_folder\<close> skips the image,
  \<^verbatim>\<open>average_embeddings\<close> returns the empty list, \<^verbatim>\<open>save_user_embeddings\<close> writes
  nothing and returns 0, \<^verbatim>\<open>generate_and_save_embeddings_for_user\<close> prints a warning
  and returns, and \<^verbatim>\<open>process_registration\<close> sets the status \<^verbatim>\<open>completed\<close>
  although no entry is stored for \<^verbatim>\<open>bob\<close>. With a webcam that delivers no frame
  the status is \<^verbatim>\<open>failed\<close>.
\<close>

theorem registration_completed_without_embeddings:
  "registration_status_check ''bob''
     (snd (process_registration exact_numerics ascii_lower default_config ''bob''
             (cam_of [frame_of Raises]) registering_state)) = ''completed''
   \<and> stored_vectors
       (snd (process_registration exact_numerics ascii_lower default_config ''bob''
               (cam_of [frame_of Raises]) registering_state)) ''bob'' = None
   \<and> embed_file
       (snd (process_registration exact_numerics ascii_lower default_config ''bob''
               (cam_of [frame_of Raises]) registering_state)) = Json []
   \<and> registration_status_check ''bob''
       (snd (process_registration exact_numerics ascii_lower default_config ''bob''
               (cam_of []) registering_state)) = ''failed''"
proof -
  have zero: "process_registration exact_numerics ascii_lower default_config ''bob''
     (cam_of []) registering_state
     = (cam_of [], registering_state\<lparr>registration_status := [''bob'' \<mapsto> ''failed'']\<rparr>)"
    by (simp add: process_registration_def capture_user_images_def default_config_def
        capture_loop_end cam_of_def registering_state_def mkdir_cropped_def set_status_def)
  show ?thesis
    unfolding registration_one_failing_frame zero
    by (simp add: registration_status_check_def stored_vectors_def registering_state_def)
qed

subsection \<open>What a registration stores\<close>

text \<open>
  Claim C8, as the code has it. Take a registration whose webcam opens and delivers
  \<open>k\<close> frames, with \<open>1 \<le> k \<le> NUM_IMAGES\<close>, the capture ending after them (\<open>k\<close>
  is \<^verbatim>\<open>NUM_IMAGES\<close> or the next read fails); every image yields an embedding, all
  of one length; the folder of cropped images of the name holds no file before;
  and \<^verbatim>\<open>str.lower\<close> leaves \<^verbatim>\<open>.jpg\<close> as it is. Then the entry stored for the name
  holds exactly one vector, whatever \<open>k\<close> is: the \<^verbatim>\<open>float32\<close> mean
  \<^verbatim>\<open>average_embeddings\<close> computes of the \<open>k\<close> embeddings, taken in the sorted order
  of the file names \<^verbatim>\<open>img_1.jpg\<close>, ..., \<^verbatim>\<open>img_k.jpg\<close>. The raw embeddings are not
  stored. The webcam has been read \<open>k\<close> times and the status of the job is
  \<^verbatim>\<open>completed\<close>.
\<close>

theorem registration_stores_one_mean_vector:
  assumes opened: "is_opened cam"
    and reads: "delivers cam frames"
    and usable: "map rep frames = map Embedding es"
    and some: "frames \<noteq> []"
    and bound: "length frames \<le> NUM_IMAGES cfg"
    and stop: "length frames = NUM_IMAGES cfg \<or> feed cam (pos cam + length frames) = None"
    and dims: "rectangular es"
    and empty: "cropped_dirs st user_name = None \<or> cropped_dirs st user_name = Some []"
    and jpg: "lower ''.jpg'' = ''.jpg''"
  shows "fst (process_registration np lower cfg user_name cam st)
           = cam\<lparr>pos := pos cam + length frames\<rparr>
       \<and> stored_vectors (snd (process_registration np lower cfg user_name cam st)) user_name
           = Some [mean_f32 np
                     (map snd (sort_key fst (zip (map image_name [0..<length es]) es)))]
       \<and> registration_status (snd (process_registration np lower cfg user_name cam st)) user_name
           = Some ''completed''"
  by (rule registration_run [where lower = lower,
             OF opened reads usable some bound stop dims empty jpg refl])

theorem registration_stores_one_mean_vector_witness:
  "delivers (cam_of [frame_of (Embedding [1, 0]), frame_of (Embedding [0, 1])])
     [frame_of (Embedding [1, 0]), frame_of (Embedding [0, 1])]
   \<and> map rep [frame_of (Embedding [1, 0]), frame_of (Embedding [0, 1])]
       = map Embedding [[1, 0], [0, 1]]
   \<and> cropped_dirs registering_state ''bob'' = Some []
   \<and> ascii_lower ''.jpg'' = ''.jpg''
   \<and> fst (process_registration exact_numerics ascii_lower default_config ''bob''
             (cam_of [frame_of (Embedding [1, 0]), frame_of (Embedding [0, 1])])
             registering_state)
       = (cam_of [frame_of (Embedding [1, 0]), frame_of (Embedding [0, 1])])\<lparr>pos := 2\<rparr>
   \<and> stored_vectors
       (snd (process_registration exact_numerics ascii_lower default_config ''bob''
               (cam_of [frame_of (Embedding [1, 0]), frame_of (Embedding [0, 1])])
               registering_state)) ''bob''
       = Some [Some [1 / 2, 1 / 2]]
   \<and> registration_status
       (snd (process_registration exact_numerics ascii_lower default_config ''bob''
               (cam_of [frame_of (Embedding [1, 0]), frame_of (Embedding [0, 1])])
               registering_state)) ''bob''
       = Some ''completed''"
proof -
  let ?frames = "[frame_of (Embedding [1, 0]), frame_of (Embedding [0, 1])]"
  have folder: "cropped_dirs registering_state ''bob'' = Some []"
    by (simp add: registering_state_def)
  have start: "pos (cam_of ?frames) = 0"
    by (simp add: cam_of_def)
  from registration_stores_one_mean_vector
         [where lower = ascii_lower and np = exact_numerics,
          OF two_frames_reads(1) two_frames_delivers two_frames_reads(2,7)
            two_frames_reads(3,4,5,6) ascii_lower_jpg]
  have "fst (process_registration exact_numerics ascii_lower default_config ''bob''
               (cam_of ?frames) registering_state) = (cam_of ?frames)\<lparr>pos := 2\<rparr>
      \<and> stored_vectors
           (snd (process_registration exact_numerics ascii_lower default_config ''bob''
                   (cam_of ?frames) registering_state)) ''bob''
          = Some [Some [1 / 2, 1 / 2]]
      \<and> registration_status
           (snd (process_registration exact_numerics ascii_lower default_config ''bob''
                   (cam_of ?frames) registering_state)) ''bob''
          = Some ''completed''"
    unfolding two_frames_sorted two_frames_mean start by simp
  with two_frames_delivers two_frames_reads(2) folder ascii_lower_jpg
  show ?thesis
    by (intro conjI) simp_all
qed

text \<open>
  The claim as first stated asks for \<open>k\<close> stored vectors, one per sample. A
  registration with two samples, of embeddings \<open>[1, 0]\<close> and \<open>[0, 1]\<close>, stores the
  single vector \<open>[0.5, 0.5]\<close>: the entry has one item, not two, and this item is
  neither of the two embeddings.
\<close>

theorem registration_stores_one_mean_vector_counterexample:
  "map rep [frame_of (Embedding [1, 0]), frame_of (Embedding [0, 1])]
     = map Embedding [[1, 0], [0, 1]]
   \<and> stored_vectors
       (snd (process_registration exact_numerics ascii_lower default_config ''bob''
               (cam_of [frame_of (Embedding [1, 0]), frame_of (Embedding [0, 1])])
               registering_state)) ''bob''
       = Some [Some [1 / 2, 1 / 2]]
   \<and> length [Some [1 / 2, 1 / 2 :: real]]
       \<noteq> length [frame_of (Embedding [1, 0]), frame_of (Embedding [0, 1])]
   \<and> Some [1 / 2, 1 / 2 :: real] \<notin> set (map Some [[1, 0], [0, 1]])"
  using registration_two_frames two_frames_reads(2) by simp

end
